theory Spec2Isabelle
  imports Complex_Main
begin

text \<open>
  A shallow embedding of the streaming session engine of the interview application
  (\<^verbatim>\<open>App.tsx\<close>): the handlers of inbound messages with the playback scheduler and the turn
  aggregator, the session controller, the downsampling of captured audio, and the
  transcript analyzer with its recovery parse. Refs and React state are fields of one
  record that each handler takes and returns; what a handler reads from its surroundings
  (the audio clock, the outcome of a decode or of a remote call) is an argument; a
  \<^verbatim>\<open>throw\<close> is the left summand of the result. Time and sample rates are real numbers.
  The definitions come first, the theorems after them.
\<close>

section \<open>JavaScript strings\<close>

text \<open>
  A JavaScript string is a sequence of UTF-16 code units and \<^verbatim>\<open>length\<close> counts code
  units, so a string is modelled as the list of its code units (natural numbers below
  65536). \<open>str\<close> injects an ASCII literal of the source.
\<close>

type_synonym jsstring = "nat list"

definition str :: "string \<Rightarrow> jsstring" where
  "str cs = map of_char cs"

text \<open>
  The code units that \<^verbatim>\<open>String.prototype.trim\<close> strips and that \<^verbatim>\<open>\s\<close> matches in a
  regular expression: ECMAScript's WhiteSpace and LineTerminator.
\<close>

definition is_ws :: "nat \<Rightarrow> bool" where
  "is_ws c \<longleftrightarrow>
     c \<in> {9, 10, 11, 12, 13, 32, 160, 5760, 8232, 8233, 8239, 8287, 12288, 65279}
     \<or> (8192 \<le> c \<and> c \<le> 8202)"

definition trim :: "jsstring \<Rightarrow> jsstring" where
  "trim s = rev (dropWhile is_ws (rev (dropWhile is_ws s)))"

text \<open>A string is truthy exactly when it is not empty.\<close>

definition truthy_str :: "jsstring \<Rightarrow> bool" where
  "truthy_str s \<longleftrightarrow> s \<noteq> []"

section \<open>JavaScript values and \<^verbatim>\<open>JSON.parse\<close>\<close>

text \<open>
  The values \<^verbatim>\<open>JSON.parse\<close> can return, and \<^verbatim>\<open>undefined\<close> for a property that is not
  there. A number is modelled by the exact value of its decimal literal. An object is
  the list of its members in source order; a later member with the same key wins.
\<close>

datatype jsvalue =
    JUndefined | JNull | JBool bool | JNum real | JStr jsstring
  | JArr "jsvalue list" | JObj "(jsstring \<times> jsvalue) list"

text \<open>What a \<^verbatim>\<open>throw\<close> carries.\<close>

datatype exn = SyntaxError | TypeError | Error jsstring | RemoteFailure

text \<open>Truthiness, as \<^verbatim>\<open>||\<close> and \<^verbatim>\<open>if\<close> test it.\<close>

definition truthy :: "jsvalue \<Rightarrow> bool" where
  "truthy v =
     (case v of
        JUndefined \<Rightarrow> False
      | JNull \<Rightarrow> False
      | JBool b \<Rightarrow> b
      | JNum x \<Rightarrow> x \<noteq> 0
      | JStr s \<Rightarrow> s \<noteq> []
      | JArr xs \<Rightarrow> True
      | JObj kvs \<Rightarrow> True)"

definition or_else :: "jsvalue \<Rightarrow> jsvalue \<Rightarrow> jsvalue" where
  "or_else v d = (if truthy v then v else d)"

definition nullish :: "jsvalue \<Rightarrow> bool" where
  "nullish v \<longleftrightarrow> v = JUndefined \<or> v = JNull"

text \<open>
  \<^verbatim>\<open>v.k\<close> for a value that is neither \<^verbatim>\<open>null\<close> nor \<^verbatim>\<open>undefined\<close> (reading a property of
  those throws a TypeError, see \<open>fromParsed\<close>), for the property names the analyzer
  reads: none of them is a property of an array, a string, a number or a boolean, nor
  inherited by an object. \<open>opt_get\<close> is \<^verbatim>\<open>v?.k\<close>.
\<close>

definition get :: "jsvalue \<Rightarrow> jsstring \<Rightarrow> jsvalue" where
  "get v k =
     (case v of
        JObj kvs \<Rightarrow> (case map_of (rev kvs) k of None \<Rightarrow> JUndefined | Some x \<Rightarrow> x)
      | _ \<Rightarrow> JUndefined)"

definition opt_get :: "jsvalue \<Rightarrow> jsstring \<Rightarrow> jsvalue" where
  "opt_get v k = (if nullish v then JUndefined else get v k)"

subsection \<open>The lexical grammar of JSON\<close>

text \<open>
  Code units: 34 is the double quote, 92 the backslash, 47 the slash, 45 and 43 the
  signs, 46 the point, 48 to 57 the digits, 101 and 69 the exponent letters, 123 and 125
  the braces, 91 and 93 the brackets, 58 the colon, 44 the comma. JSON's white space is
  tab, line feed, carriage return and space only.
\<close>

definition json_ws :: "nat \<Rightarrow> bool" where
  "json_ws c \<longleftrightarrow> c = 9 \<or> c = 10 \<or> c = 13 \<or> c = 32"

definition is_digit :: "nat \<Rightarrow> bool" where
  "is_digit c \<longleftrightarrow> 48 \<le> c \<and> c \<le> 57"

definition hexval :: "nat \<Rightarrow> nat option" where
  "hexval c =
     (if 48 \<le> c \<and> c \<le> 57 then Some (c - 48)
      else if 97 \<le> c \<and> c \<le> 102 then Some (c - 87)
      else if 65 \<le> c \<and> c \<le> 70 then Some (c - 55)
      else None)"

definition hex4 :: "jsstring \<Rightarrow> nat option" where
  "hex4 s =
     (case s of
        a # b # c # d # r \<Rightarrow>
          (case (hexval a, hexval b, hexval c, hexval d) of
             (Some x, Some y, Some z, Some w) \<Rightarrow> Some (4096 * x + 256 * y + 16 * z + w)
           | _ \<Rightarrow> None)
      | _ \<Rightarrow> None)"

definition unescape :: "nat \<Rightarrow> nat option" where
  "unescape e =
     (if e = 34 \<or> e = 92 \<or> e = 47 then Some e
      else if e = 98 then Some 8
      else if e = 102 then Some 12
      else if e = 110 then Some 10
      else if e = 114 then Some 13
      else if e = 116 then Some 9
      else None)"

fun json_string :: "jsstring \<Rightarrow> jsstring \<Rightarrow> (jsstring \<times> jsstring) option" where
  "json_string acc [] = None"
| "json_string acc (c # cs) =
     (if c = 34 then Some (rev acc, cs)
      else if c = 92 then
        (case cs of
           [] \<Rightarrow> None
         | e # es \<Rightarrow>
             if e = 117 then
               (case hex4 es of
                  None \<Rightarrow> None
                | Some u \<Rightarrow> json_string (u # acc) (drop 4 es))
             else
               (case unescape e of
                  None \<Rightarrow> None
                | Some x \<Rightarrow> json_string (x # acc) es))
      else if c < 32 then None
      else json_string (c # acc) cs)"

definition digits_val :: "jsstring \<Rightarrow> nat" where
  "digits_val ds = foldl (\<lambda>a d. 10 * a + (d - 48)) 0 ds"

definition mk_number :: "bool \<Rightarrow> jsstring \<Rightarrow> jsstring \<Rightarrow> bool \<Rightarrow> jsstring \<Rightarrow> real" where
  "mk_number neg ip fp eneg ep =
     (if neg then - 1 else 1)
     * (real (digits_val ip) + real (digits_val fp) / 10 ^ length fp)
     * (if eneg then 1 / 10 ^ digits_val ep else 10 ^ digits_val ep)"

definition starts_with :: "jsstring \<Rightarrow> (nat \<Rightarrow> bool) \<Rightarrow> bool" where
  "starts_with s P = (case s of [] \<Rightarrow> False | c # r \<Rightarrow> P c)"

definition frac_part :: "jsstring \<Rightarrow> (jsstring \<times> jsstring) option" where
  "frac_part s =
     (if starts_with s (\<lambda>c. c = 46) then
        (let fp = takeWhile is_digit (tl s)
         in if fp = [] then None else Some (fp, dropWhile is_digit (tl s)))
      else Some ([], s))"

definition exp_part :: "jsstring \<Rightarrow> ((bool \<times> jsstring) \<times> jsstring) option" where
  "exp_part s =
     (if starts_with s (\<lambda>c. c = 101 \<or> c = 69) then
        (let s1 = tl s;
             eneg = starts_with s1 (\<lambda>c. c = 45);
             s2 = (if starts_with s1 (\<lambda>c. c = 45 \<or> c = 43) then tl s1 else s1);
             ep = takeWhile is_digit s2
         in if ep = [] then None else Some ((eneg, ep), dropWhile is_digit s2))
      else Some ((False, []), s))"

definition json_number :: "jsstring \<Rightarrow> (real \<times> jsstring) option" where
  "json_number s =
     (let neg = starts_with s (\<lambda>c. c = 45);
          s1 = (if neg then tl s else s);
          ip = takeWhile is_digit s1
      in if ip = [] \<or> (hd ip = 48 \<and> 1 < length ip) then None
         else
           (case frac_part (dropWhile is_digit s1) of
              None \<Rightarrow> None
            | Some (fp, s3) \<Rightarrow>
                (case exp_part s3 of
                   None \<Rightarrow> None
                 | Some ((eneg, ep), s6) \<Rightarrow> Some (mk_number neg ip fp eneg ep, s6))))"

datatype token =
    TLBrace | TRBrace | TLBracket | TRBracket | TColon | TComma
  | TStr jsstring | TAtom jsvalue

function tokenize :: "jsstring \<Rightarrow> token list option" where
  "tokenize [] = Some []"
| "tokenize (c # cs) =
     (if json_ws c then tokenize cs
      else if c = 123 then map_option (Cons TLBrace) (tokenize cs)
      else if c = 125 then map_option (Cons TRBrace) (tokenize cs)
      else if c = 91 then map_option (Cons TLBracket) (tokenize cs)
      else if c = 93 then map_option (Cons TRBracket) (tokenize cs)
      else if c = 58 then map_option (Cons TColon) (tokenize cs)
      else if c = 44 then map_option (Cons TComma) (tokenize cs)
      else if c = 34 then
        (case json_string [] cs of
           None \<Rightarrow> None
         | Some (t, r) \<Rightarrow> map_option (Cons (TStr t)) (tokenize r))
      else if c = 45 \<or> is_digit c then
        (case json_number (c # cs) of
           None \<Rightarrow> None
         | Some (x, r) \<Rightarrow> map_option (Cons (TAtom (JNum x))) (tokenize r))
      else if take 4 (c # cs) = str ''true'' then
        map_option (Cons (TAtom (JBool True))) (tokenize (drop 3 cs))
      else if take 5 (c # cs) = str ''false'' then
        map_option (Cons (TAtom (JBool False))) (tokenize (drop 4 cs))
      else if take 4 (c # cs) = str ''null'' then
        map_option (Cons (TAtom JNull)) (tokenize (drop 3 cs))
      else None)"
  by pat_completeness auto

text \<open>Each lexical function leaves a strictly shorter rest, so the tokenizer terminates.\<close>

termination
proof -
  have str_rest: "json_string acc s = Some (t, r) \<Longrightarrow> length r < length s" for acc s t r
  proof (induction acc s rule: json_string.induct)
    case (1 acc)
    then show ?case by simp
  next
    case (2 acc c cs)
    show ?case
    proof (cases "c = 34")
      case True
      with "2.prems" show ?thesis by simp
    next
      case c34: False
      show ?thesis
      proof (cases "c = 92")
        case True
        show ?thesis
        proof (cases cs)
          case Nil
          with "2.prems" c34 True show ?thesis by simp
        next
          case (Cons e es)
          show ?thesis
          proof (cases "e = 117")
            case eu: True
            show ?thesis
            proof (cases "hex4 es")
              case None
              with "2.prems" c34 True Cons eu show ?thesis by simp
            next
              case (Some u)
              with "2.prems" c34 True Cons eu
              have "json_string (u # acc) (drop 4 es) = Some (t, r)" by simp
              from "2.IH"(1) [OF c34 True Cons eu Some this]
              show ?thesis using Cons by simp
            qed
          next
            case eu: False
            show ?thesis
            proof (cases "unescape e")
              case None
              with "2.prems" c34 True Cons eu show ?thesis by simp
            next
              case (Some x)
              with "2.prems" c34 True Cons eu
              have "json_string (x # acc) es = Some (t, r)" by simp
              from "2.IH"(2) [OF c34 True Cons eu Some this]
              show ?thesis using Cons by simp
            qed
          qed
        qed
      next
        case c92: False
        show ?thesis
        proof (cases "c < 32")
          case True
          with "2.prems" c34 c92 show ?thesis by simp
        next
          case False
          with "2.prems" c34 c92
          have "json_string (c # acc) cs = Some (t, r)" by simp
          from "2.IH"(3) [OF c34 c92 False this]
          show ?thesis by simp
        qed
      qed
    qed
  qed
  have digits: "length (dropWhile is_digit xs) < length xs"
    if "takeWhile is_digit xs \<noteq> []" for xs
    using that
    by (metis append_self_conv2 length_append length_greater_0_conv
        less_add_same_cancel2 takeWhile_dropWhile_id)
  have frac: "length r \<le> length s" if "frac_part s = Some (fp, r)" for s fp r
    using that
    by (auto simp: frac_part_def Let_def split: if_splits
        intro: le_trans [OF length_dropWhile_le])
  have expo: "length r \<le> length s" if "exp_part s = Some (e, r)" for s e r
  proof -
    have "length (dropWhile is_digit (tl (tl s))) \<le> length s"
      by (rule le_trans [OF length_dropWhile_le]) simp
    moreover have "length (dropWhile is_digit (tl s)) \<le> length s"
      by (rule le_trans [OF length_dropWhile_le]) simp
    ultimately show ?thesis
      using that by (auto simp: exp_part_def Let_def split: if_splits)
  qed
  have num_rest: "length r < length s" if "json_number s = Some (x, r)" for s x r
  proof -
    define s1 where "s1 = (if starts_with s (\<lambda>c. c = 45) then tl s else s)"
    from that obtain fp s3 e where ip: "takeWhile is_digit s1 \<noteq> []"
      and f: "frac_part (dropWhile is_digit s1) = Some (fp, s3)"
      and e: "exp_part s3 = Some (e, r)"
      by (auto simp: json_number_def Let_def s1_def split: if_splits option.splits)
    have "length s1 \<le> length s" by (simp add: s1_def)
    moreover note digits [OF ip] frac [OF f] expo [OF e]
    ultimately show ?thesis by linarith
  qed
  show ?thesis
    by (relation "measure length") (auto dest: str_rest num_rest)
qed

subsection \<open>The syntactic grammar of JSON\<close>

text \<open>
  A pushdown recogniser over the tokens: the stack holds the arrays and objects that are
  still open (their elements so far, newest first, and for an object the key awaiting its
  value), the mode tells what the next token may be. The text is accepted when the
  tokens end right after one complete value.
\<close>

datatype frame = FArr "jsvalue list" | FObj "(jsstring \<times> jsvalue) list" "jsstring option"

datatype mode =
    MValue | MValueOrEnd | MKeyOrEnd | MKey | MColon | MAfterElem | MAfterMember
  | MDone jsvalue

definition deliver :: "jsvalue \<Rightarrow> frame list \<Rightarrow> (frame list \<times> mode) option" where
  "deliver v st =
     (case st of
        [] \<Rightarrow> Some ([], MDone v)
      | FArr acc # st' \<Rightarrow> Some (FArr (v # acc) # st', MAfterElem)
      | FObj acc None # st' \<Rightarrow> None
      | FObj acc (Some k) # st' \<Rightarrow> Some (FObj ((k, v) # acc) None # st', MAfterMember))"

definition value_start :: "token \<Rightarrow> frame list \<Rightarrow> (frame list \<times> mode) option" where
  "value_start t st =
     (case t of
        TStr x \<Rightarrow> deliver (JStr x) st
      | TAtom v \<Rightarrow> deliver v st
      | TLBracket \<Rightarrow> Some (FArr [] # st, MValueOrEnd)
      | TLBrace \<Rightarrow> Some (FObj [] None # st, MKeyOrEnd)
      | _ \<Rightarrow> None)"

definition key_start :: "token \<Rightarrow> frame list \<Rightarrow> (frame list \<times> mode) option" where
  "key_start t st =
     (case (t, st) of
        (TStr k, FObj acc None # st') \<Rightarrow> Some (FObj acc (Some k) # st', MColon)
      | _ \<Rightarrow> None)"

definition close_array :: "frame list \<Rightarrow> (frame list \<times> mode) option" where
  "close_array st =
     (case st of FArr acc # st' \<Rightarrow> deliver (JArr (rev acc)) st' | _ \<Rightarrow> None)"

definition close_object :: "frame list \<Rightarrow> (frame list \<times> mode) option" where
  "close_object st =
     (case st of FObj acc None # st' \<Rightarrow> deliver (JObj (rev acc)) st' | _ \<Rightarrow> None)"

definition parse_step :: "token \<Rightarrow> frame list \<Rightarrow> mode \<Rightarrow> (frame list \<times> mode) option" where
  "parse_step t st m =
     (case m of
        MValue \<Rightarrow> value_start t st
      | MValueOrEnd \<Rightarrow> if t = TRBracket then close_array st else value_start t st
      | MKeyOrEnd \<Rightarrow> if t = TRBrace then close_object st else key_start t st
      | MKey \<Rightarrow> key_start t st
      | MColon \<Rightarrow> if t = TColon then Some (st, MValue) else None
      | MAfterElem \<Rightarrow>
          if t = TComma then Some (st, MValue)
          else if t = TRBracket then close_array st else None
      | MAfterMember \<Rightarrow>
          if t = TComma then Some (st, MKey)
          else if t = TRBrace then close_object st else None
      | MDone v \<Rightarrow> None)"

fun parse_tokens :: "token list \<Rightarrow> frame list \<Rightarrow> mode \<Rightarrow> jsvalue option" where
  "parse_tokens [] st m = (case m of MDone v \<Rightarrow> Some v | _ \<Rightarrow> None)"
| "parse_tokens (t # ts) st m =
     (case parse_step t st m of
        None \<Rightarrow> None
      | Some (st', m') \<Rightarrow> parse_tokens ts st' m')"

definition JSON_parse :: "jsstring \<Rightarrow> exn + jsvalue" where
  "JSON_parse s =
     (case tokenize s of
        None \<Rightarrow> Inl SyntaxError
      | Some ts \<Rightarrow>
          (case parse_tokens ts [] MValue of
             None \<Rightarrow> Inl SyntaxError
           | Some v \<Rightarrow> Inr v))"

section \<open>String operations of the analyzer\<close>

text \<open>
  \<^verbatim>\<open>s.replace(/pat/g, '')\<close> for a literal pattern: every occurrence, left to right, without
  overlap.
\<close>

function strip_all :: "jsstring \<Rightarrow> jsstring \<Rightarrow> jsstring" where
  "strip_all pat [] = []"
| "strip_all pat (c # cs) =
     (if pat \<noteq> [] \<and> take (length pat) (c # cs) = pat
      then strip_all pat (drop (length pat) (c # cs))
      else c # strip_all pat cs)"
  by pat_completeness auto
termination
  by (relation "measure (\<lambda>(pat, s). length s)") auto

text \<open>
  \<^verbatim>\<open>s.replace(/,\s*}/g, '}')\<close> and \<^verbatim>\<open>s.replace(/,\s*]/g, ']')\<close>, the closing code unit given
  as \<open>close\<close>: a comma matches when the first code unit after it that is not white
  space is \<open>close\<close>.
\<close>

function strip_comma_before :: "nat \<Rightarrow> jsstring \<Rightarrow> jsstring" where
  "strip_comma_before close [] = []"
| "strip_comma_before close (c # cs) =
     (if c = 44 \<and> starts_with (dropWhile is_ws cs) (\<lambda>d. d = close)
      then close # strip_comma_before close (tl (dropWhile is_ws cs))
      else c # strip_comma_before close cs)"
  by pat_completeness auto
termination
proof -
  have "length (dropWhile P cs) - Suc 0 < Suc (length cs)" for P :: "nat \<Rightarrow> bool" and cs
    using length_dropWhile_le [of P cs] by arith
  then show ?thesis
    by (relation "measure (\<lambda>(close, s). length s)") auto
qed

text \<open>
  \<^verbatim>\<open>indexOf\<close> and \<^verbatim>\<open>lastIndexOf\<close> of one code unit (\<open>-1\<close> when absent), and
  \<^verbatim>\<open>substring\<close>, which clamps its arguments to the string and swaps them when the first
  is the larger.
\<close>

definition indexOf :: "jsstring \<Rightarrow> nat \<Rightarrow> int" where
  "indexOf s c = (if c \<in> set s then int (length (takeWhile (\<lambda>x. x \<noteq> c) s)) else - 1)"

definition lastIndexOf :: "jsstring \<Rightarrow> nat \<Rightarrow> int" where
  "lastIndexOf s c =
     (if c \<in> set s then int (length s) - 1 - int (length (takeWhile (\<lambda>x. x \<noteq> c) (rev s)))
      else - 1)"

definition substring :: "jsstring \<Rightarrow> int \<Rightarrow> int \<Rightarrow> jsstring" where
  "substring s a b =
     (let n = int (length s);
          a' = max 0 (min a n);
          b' = max 0 (min b n)
      in take (nat (max a' b' - min a' b')) (drop (nat (min a' b')) s))"

definition sanitizeAndParseJSON :: "jsstring \<Rightarrow> exn + jsvalue" where
  "sanitizeAndParseJSON jsonText =
     (let cleaned = strip_all (str ''```'') (strip_all (str ''```json'') jsonText);
          firstBrace = indexOf cleaned 123;
          lastBrace = lastIndexOf cleaned 125
      in if firstBrace \<noteq> - 1 \<and> lastBrace \<noteq> - 1 then
           (let cleaned1 = substring cleaned firstBrace (lastBrace + 1)
            in case JSON_parse cleaned1 of
                 Inr v \<Rightarrow> Inr v
               | Inl e \<Rightarrow>
                  (case JSON_parse (strip_comma_before 93 (strip_comma_before 125 cleaned1)) of
                     Inr v \<Rightarrow> Inr v
                   | Inl e2 \<Rightarrow> Inl e))
         else Inl (Error (str ''No JSON object found in response'')))"

section \<open>The application state (App.tsx)\<close>

datatype InterviewState = IDLE | CONNECTING | ACTIVE | ANALYZING | FEEDBACK | ERROR

datatype chat_role = User | Model

record ChatMessage =
  chatRole :: chat_role
  chatText :: jsstring

text \<open>
  An \<^verbatim>\<open>AudioBufferSourceNode\<close>. Nodes are objects, compared by identity: \<open>nodeId\<close> is
  the identity, taken from the allocation counter \<open>nextNodeId\<close> of the state.
  \<open>startAt\<close> is the argument of \<^verbatim>\<open>start()\<close>, \<open>bufDuration\<close> the duration of the buffer.
\<close>

record bufferSource =
  nodeId :: nat
  startAt :: real
  bufDuration :: real

datatype ctx_state = Running | Suspended | Closed

record GestureMetrics =
  smileCount :: nat
  eyeTouchCount :: nat
  handGestureCount :: nat

text \<open>
  The report of \<^verbatim>\<open>types.ts\<close>, with the types the analyzer enforces at run time: the
  score is a number and the two lists are arrays, while the summary, the elements of the
  lists and the sub-metrics are whatever value the payload gave.
\<close>

record Metrics =
  technical :: jsvalue
  communication :: jsvalue
  confidence :: jsvalue
  clarity :: jsvalue
  problemSolving :: jsvalue

record FeedbackData =
  score :: real
  summary :: jsvalue
  strengths :: "jsvalue list"
  improvements :: "jsvalue list"
  metrics :: Metrics
  gestureMetrics :: "GestureMetrics option"

text \<open>
  The refs and React state of the component that the session engine reads and writes.
  \<open>stopped\<close> logs the nodes on which \<^verbatim>\<open>stop()\<close> has been called.
  \<open>outputAudioContextRef\<close> is \<open>None\<close> for \<^verbatim>\<open>null\<close>; the clock of the context
  (\<^verbatim>\<open>currentTime\<close>) is an input of each handler.
\<close>

record app =
  state :: InterviewState
  currentSessionIdRef :: jsstring
  nextStartTimeRef :: real
  sourcesRef :: "bufferSource list"
  stopped :: "bufferSource list"
  nextNodeId :: nat
  currentInputRef :: jsstring
  currentOutputRef :: jsstring
  fullTranscriptRef :: jsstring
  transcripts :: "ChatMessage list"
  currentInputTrans :: jsstring
  currentOutputTrans :: jsstring
  tokenUsage :: nat
  outputAudioContextRef :: "ctx_state option"
  feedback :: "FeedbackData option"

section \<open>Inbound messages: \<^verbatim>\<open>onmessage\<close>\<close>

text \<open>
  The fields of a \<^verbatim>\<open>LiveServerMessage\<close> that the handler reads, each \<open>None\<close> when the
  optional chain yields \<^verbatim>\<open>undefined\<close>.
\<close>

record LiveServerMessage =
  outputTranscription :: "jsstring option"
  inputTranscription :: "jsstring option"
  turnComplete :: bool
  interrupted :: bool
  inlineData :: "jsstring option"

definition handleOutputText :: "LiveServerMessage \<Rightarrow> app \<Rightarrow> app" where
  "handleOutputText msg s =
     (case outputTranscription msg of
        None \<Rightarrow> s
      | Some t \<Rightarrow>
          if truthy_str t
          then s\<lparr>currentOutputRef := currentOutputRef s @ t,
                 currentOutputTrans := currentOutputRef s @ t\<rparr>
          else s)"

definition handleInputText :: "LiveServerMessage \<Rightarrow> app \<Rightarrow> app" where
  "handleInputText msg s =
     (case inputTranscription msg of
        None \<Rightarrow> s
      | Some t \<Rightarrow>
          if truthy_str t
          then s\<lparr>currentInputRef := currentInputRef s @ t,
                 currentInputTrans := currentInputRef s @ t\<rparr>
          else s)"

text \<open>
  \<^verbatim>\<open>Math.ceil((input.length + output.length) / 3.5)\<close>, in exact arithmetic. The quotient
  of a length by 3.5 is a whole number or at least 1/7 away from one, so the rounding of
  the double division does not change the ceiling.
\<close>

definition newTokens :: "jsstring \<Rightarrow> jsstring \<Rightarrow> nat" where
  "newTokens input output = nat \<lceil>real (length input + length output) / 3.5\<rceil>"

text \<open>The block run when \<^verbatim>\<open>msg.serverContent?.turnComplete\<close> is set.\<close>

definition handleTurnComplete :: "app \<Rightarrow> app" where
  "handleTurnComplete s =
     (let input = currentInputRef s;
          output = currentOutputRef s;
          s1 = (if truthy_str (trim input) \<or> truthy_str (trim output)
                then s\<lparr>transcripts := transcripts s @
                          [\<lparr>chatRole = User, chatText = input\<rparr>,
                           \<lparr>chatRole = Model, chatText = output\<rparr>],
                        tokenUsage := tokenUsage s + newTokens input output,
                        fullTranscriptRef := fullTranscriptRef s @
                          str ''Candidate: '' @ input @ str ''\<newline>Interviewer: '' @ output
                          @ str ''\<newline>''\<rparr>
                else s)
      in s1\<lparr>currentInputRef := [], currentOutputRef := [],
             currentInputTrans := [], currentOutputTrans := []\<rparr>)"

text \<open>
  The block run when \<^verbatim>\<open>msg.serverContent?.interrupted\<close> is set; \<open>now\<close> is the clock of
  the output context.
\<close>

definition handleInterrupted :: "real \<Rightarrow> app \<Rightarrow> app" where
  "handleInterrupted now s =
     (let s1 = s\<lparr>stopped := stopped s @ sourcesRef s,
                  sourcesRef := [],
                  nextStartTimeRef := (case outputAudioContextRef s of
                                         None \<Rightarrow> 0 | Some c \<Rightarrow> now)\<rparr>;
          input = currentInputRef s1;
          output = currentOutputRef s1
      in if truthy_str (trim input) \<or> truthy_str (trim output)
         then s1\<lparr>transcripts := transcripts s1 @
                    [\<lparr>chatRole = User, chatText = input\<rparr>,
                     \<lparr>chatRole = Model, chatText = output @ str '' (interrupted)''\<rparr>],
                  fullTranscriptRef := fullTranscriptRef s1 @
                    str ''Candidate: '' @ input @ str ''\<newline>Interviewer: '' @ output
                    @ str '' (interrupted)\<newline>'',
                  currentInputRef := [], currentOutputRef := [],
                  currentInputTrans := [], currentOutputTrans := []\<rparr>
         else s1)"

text \<open>
  The handler up to its \<^verbatim>\<open>await decodeAudioData(...)\<close>. \<open>newSessionId\<close> is the token the
  closure captured. The second component tells whether the handler is now suspended at
  the await (the message carries audio and the output context is running); the rest of
  the handler is \<open>onmessage_audio\<close>.
\<close>

definition onmessage :: "jsstring \<Rightarrow> LiveServerMessage \<Rightarrow> real \<Rightarrow> app \<Rightarrow> app \<times> bool" where
  "onmessage newSessionId msg now s =
     (if currentSessionIdRef s \<noteq> newSessionId then (s, False)
      else
        let s1 = handleOutputText msg s;
            s2 = handleInputText msg s1;
            s3 = (if turnComplete msg then handleTurnComplete s2 else s2);
            s4 = (if interrupted msg then handleInterrupted now s3 else s3)
        in (s4, (case inlineData msg of
                   None \<Rightarrow> False
                 | Some b \<Rightarrow> truthy_str b \<and> outputAudioContextRef s4 = Some Running)))"

text \<open>
  The handler after the await. \<^verbatim>\<open>decodeAudioData\<close> belongs to the audio service, so its
  outcome is an input: \<open>None\<close> when decoding throws (caught and logged), otherwise the
  duration of the decoded buffer. \<open>now\<close> is \<^verbatim>\<open>ctx.currentTime\<close> of the context the
  handler captured before the await. The code after the await reads no session token.
\<close>

definition onmessage_audio :: "real option \<Rightarrow> real \<Rightarrow> app \<Rightarrow> app" where
  "onmessage_audio decoded now s =
     (case decoded of
        None \<Rightarrow> s
      | Some d \<Rightarrow>
          let t = max (nextStartTimeRef s) now;
              source = \<lparr>nodeId = nextNodeId s, startAt = t, bufDuration = d\<rparr>
          in s\<lparr>nextStartTimeRef := t + d,
               sourcesRef := sourcesRef s @ [source],
               nextNodeId := Suc (nextNodeId s)\<rparr>)"

text \<open>The \<^verbatim>\<open>ended\<close> listener of a scheduled node.\<close>

definition onended :: "bufferSource \<Rightarrow> app \<Rightarrow> app" where
  "onended source s = s\<lparr>sourcesRef := removeAll source (sourcesRef s)\<rparr>"

text \<open>
  A run of decoded buffers, each given with its duration and the clock at which its
  handler resumes, and the nodes the run creates.
\<close>

definition scheduleAll :: "app \<Rightarrow> (real \<times> real) list \<Rightarrow> app" where
  "scheduleAll s bs = foldl (\<lambda>s (d, now). onmessage_audio (Some d) now s) s bs"

definition scheduled :: "app \<Rightarrow> (real \<times> real) list \<Rightarrow> bufferSource list" where
  "scheduled s bs = drop (length (sourcesRef s)) (sourcesRef (scheduleAll s bs))"

section \<open>The session controller\<close>

text \<open>The initial values of the refs and of the React state.\<close>

definition initialApp :: app where
  "initialApp =
     \<lparr>state = IDLE, currentSessionIdRef = [], nextStartTimeRef = 0, sourcesRef = [],
      stopped = [], nextNodeId = 0, currentInputRef = [], currentOutputRef = [],
      fullTranscriptRef = [], transcripts = [], currentInputTrans = [],
      currentOutputTrans = [], tokenUsage = 0, outputAudioContextRef = None,
      feedback = None\<rparr>"

text \<open>
  \<^verbatim>\<open>stopAllMedia\<close>, on the state modelled here: the token is invalidated first, a context
  that is not closed is closed and its ref cleared, every active node is stopped and the
  set cleared.
\<close>

definition stopAllMedia :: "app \<Rightarrow> app" where
  "stopAllMedia s =
     s\<lparr>currentSessionIdRef := [],
       outputAudioContextRef :=
         (case outputAudioContextRef s of
            None \<Rightarrow> None
          | Some c \<Rightarrow> if c \<noteq> Closed then None else Some c),
       stopped := stopped s @ sourcesRef s,
       sourcesRef := []\<rparr>"

definition handleHardReset :: "app \<Rightarrow> app" where
  "handleHardReset s =
     (let s1 = stopAllMedia (s\<lparr>currentSessionIdRef := []\<rparr>)
      in s1\<lparr>outputAudioContextRef := None, sourcesRef := [],
            nextStartTimeRef := 0, currentInputRef := [], currentOutputRef := [],
            fullTranscriptRef := [], transcripts := [], currentInputTrans := [],
            currentOutputTrans := [], feedback := None, tokenUsage := 0,
            state := IDLE\<rparr>)"

text \<open>
  \<^verbatim>\<open>startInterview\<close>. \<open>newSessionId\<close> is \<^verbatim>\<open>Date.now().toString()\<close>; the environment tells
  whether the browser is online, whether the credential is present and whether the
  microphone is granted. Each audio context starts a looping one-sample silent node,
  which joins the active set.
\<close>

record startEnv =
  online :: bool
  hasApiKey :: bool
  micGranted :: bool

definition startInterview :: "startEnv \<Rightarrow> jsstring \<Rightarrow> app \<Rightarrow> app" where
  "startInterview env newSessionId s =
     (if \<not> online env then s\<lparr>state := ERROR\<rparr>
      else
        let s1 = stopAllMedia s;
            s2 = s1\<lparr>currentSessionIdRef := newSessionId, nextStartTimeRef := 0,
                    currentInputRef := [], currentOutputRef := [], fullTranscriptRef := [],
                    state := CONNECTING, transcripts := [], currentInputTrans := [],
                    currentOutputTrans := [], tokenUsage := 0\<rparr>
        in if \<not> hasApiKey env then stopAllMedia (s2\<lparr>state := ERROR\<rparr>)
           else
             let s3 = s2\<lparr>outputAudioContextRef := Some Running,
                         sourcesRef := sourcesRef s2 @
                           [\<lparr>nodeId = nextNodeId s2, startAt = 0, bufDuration = 1 / 16000\<rparr>,
                            \<lparr>nodeId = Suc (nextNodeId s2), startAt = 0,
                             bufDuration = 1 / 24000\<rparr>],
                         nextNodeId := Suc (Suc (nextNodeId s2))\<rparr>
             in if \<not> micGranted env then stopAllMedia (s3\<lparr>state := ERROR\<rparr>) else s3)"

definition onopen :: "jsstring \<Rightarrow> app \<Rightarrow> app" where
  "onopen newSessionId s =
     (if currentSessionIdRef s \<noteq> newSessionId then s else s\<lparr>state := ACTIVE\<rparr>)"

definition onclose :: "jsstring \<Rightarrow> app \<Rightarrow> app" where
  "onclose newSessionId s =
     (if currentSessionIdRef s = newSessionId then stopAllMedia (s\<lparr>state := ERROR\<rparr>) else s)"

definition onerror :: "jsstring \<Rightarrow> app \<Rightarrow> app" where
  "onerror newSessionId s =
     (if currentSessionIdRef s \<noteq> newSessionId then s else stopAllMedia (s\<lparr>state := ERROR\<rparr>))"

section \<open>The capture pipeline: \<^verbatim>\<open>onaudioprocess\<close>\<close>

definition targetSampleRate :: real where
  "targetSampleRate = 16000"

text \<open>
  The downsampling block. The samples are only copied, never computed with, so their type
  is left open. The arithmetic on rates and indices is exact here; the code computes it in
  double precision.
\<close>

definition downsample :: "real \<Rightarrow> 'a list \<Rightarrow> 'a list" where
  "downsample sourceSampleRate inputData =
     (if sourceSampleRate > targetSampleRate then
        let ratio = sourceSampleRate / targetSampleRate;
            newLength = nat \<lfloor>real (length inputData) / ratio\<rfloor>
        in map (\<lambda>i. inputData ! nat \<lfloor>real i * ratio\<rfloor>) [0..<newLength]
      else inputData)"

text \<open>
  The callback: nothing for a stale token, otherwise the samples and the rate handed to
  \<^verbatim>\<open>createPcmBlob\<close>.
\<close>

definition onaudioprocess :: "jsstring \<Rightarrow> real \<Rightarrow> 'a list \<Rightarrow> app \<Rightarrow> ('a list \<times> real) option" where
  "onaudioprocess newSessionId sourceSampleRate inputData s =
     (if currentSessionIdRef s \<noteq> newSessionId then None
      else Some (downsample sourceSampleRate inputData, targetSampleRate))"

text \<open>
  The claim's wording taken literally, for comparison: decimation at the ratio of the two
  rates truncated to an integer \<open>k\<close>, that is every \<open>k\<close>-th sample.
\<close>

definition decimate_truncated_ratio :: "real \<Rightarrow> 'a list \<Rightarrow> 'a list" where
  "decimate_truncated_ratio sourceSampleRate inputData =
     (let k = nat \<lfloor>sourceSampleRate / targetSampleRate\<rfloor>
      in map (\<lambda>i. inputData ! (i * k)) [0..<length inputData div k])"

section \<open>The transcript analyzer: \<^verbatim>\<open>handleEndInterview\<close>\<close>

definition FEEDBACK_GENERATION_PROMPT :: jsstring where
  \<open>FEEDBACK_GENERATION_PROMPT =
     str ''\<newline>'' @
     str ''You are a Senior Hiring Manager. Analyze the provided interview transcript.\<newline>'' @
     str ''\<newline>'' @
     str ''**CRITICAL CONSTRAINTS (TO PREVENT JSON ERRORS):**\<newline>'' @
     str ''1. **BE CONCISE:** Do NOT repeat the transcript. Keep the summary under 60 words.\<newline>'' @
     str ''2. **LIMIT LISTS:** Provide exactly 3 top strengths and 3 specific improvements. No more.\<newline>'' @
     str ''3. **STRICT JSON:** Output ONLY raw JSON. Do not wrap it in markdown code blocks (e.g. no ```json).\<newline>'' @
     str ''4. **NO PROSE:** Do not write any introduction or conclusion text. Just the JSON object.\<newline>'' @
     str ''\<newline>'' @
     str ''**JSON Structure:**\<newline>'' @
     str ''{\<newline>'' @
     str ''  "score": number (0-100),\<newline>'' @
     str ''  "summary": "Brief summary of performance.",\<newline>'' @
     str ''  "strengths": ["Strength 1", "Strength 2", "Strength 3"],\<newline>'' @
     str ''  "improvements": ["Improvement 1", "Improvement 2", "Improvement 3"],\<newline>'' @
     str ''  "metrics": {\<newline>'' @
     str ''    "technical": number (0-10),\<newline>'' @
     str ''    "communication": number (0-10),\<newline>'' @
     str ''    "confidence": number (0-10),\<newline>'' @
     str ''    "clarity": number (0-10),\<newline>'' @
     str ''    "problemSolving": number (0-10)\<newline>'' @
     str ''  }\<newline>'' @
     str ''}\<newline>''\<close>

definition emptyMetrics :: Metrics where
  "emptyMetrics =
     \<lparr>technical = JNum 0, communication = JNum 0, confidence = JNum 0, clarity = JNum 0,
      problemSolving = JNum 0\<rparr>"

definition emptyData :: "GestureMetrics option \<Rightarrow> FeedbackData" where
  "emptyData g =
     \<lparr>score = 0,
      summary = JStr (str
        ''No meaningful conversation was recorded. Please check microphone settings.''),
      strengths = [JStr (str ''N/A'')],
      improvements = [JStr (str ''Ensure microphone is enabled''),
                      JStr (str ''Check network connection'')],
      metrics = emptyMetrics,
      gestureMetrics = g\<rparr>"

definition invalidFormatData :: "GestureMetrics option \<Rightarrow> FeedbackData" where
  "invalidFormatData g =
     \<lparr>score = 0,
      summary = JStr (str ''The AI analyzed the interview but returned an invalid format.''),
      strengths = [JStr (str ''Analysis Error'')],
      improvements = [JStr (str ''Please try again'')],
      metrics = emptyMetrics,
      gestureMetrics = g\<rparr>"

definition emergencyData :: "GestureMetrics option \<Rightarrow> FeedbackData" where
  "emergencyData g =
     \<lparr>score = 0,
      summary = JStr (str ''Network or API error during analysis.''),
      strengths = [JStr (str ''N/A'')],
      improvements = [JStr (str ''N/A'')],
      metrics = emptyMetrics,
      gestureMetrics = g\<rparr>"

text \<open>
  The field-by-field construction of the report from the parsed payload. Reading
  \<^verbatim>\<open>parsed.score\<close> throws when \<open>parsed\<close> is \<^verbatim>\<open>null\<close>.
\<close>

definition fromParsed :: "jsvalue \<Rightarrow> GestureMetrics option \<Rightarrow> exn + FeedbackData" where
  "fromParsed parsed g =
     (if nullish parsed then Inl TypeError
      else Inr
        \<lparr>score = (case get parsed (str ''score'') of JNum x \<Rightarrow> x | _ \<Rightarrow> 0),
         summary = or_else (get parsed (str ''summary'')) (JStr (str ''Analysis complete.'')),
         strengths = (case get parsed (str ''strengths'') of
                        JArr xs \<Rightarrow> xs
                      | _ \<Rightarrow> [JStr (str ''No specific strengths detected'')]),
         improvements = (case get parsed (str ''improvements'') of
                           JArr xs \<Rightarrow> xs
                         | _ \<Rightarrow> [JStr (str ''No specific improvements detected'')]),
         metrics =
           \<lparr>technical =
              or_else (opt_get (get parsed (str ''metrics'')) (str ''technical'')) (JNum 0),
            communication =
              or_else (opt_get (get parsed (str ''metrics'')) (str ''communication'')) (JNum 0),
            confidence =
              or_else (opt_get (get parsed (str ''metrics'')) (str ''confidence'')) (JNum 0),
            clarity =
              or_else (opt_get (get parsed (str ''metrics'')) (str ''clarity'')) (JNum 0),
            problemSolving =
              or_else (opt_get (get parsed (str ''metrics'')) (str ''problemSolving''))
                (JNum 0)\<rparr>,
         gestureMetrics = g\<rparr>)"

text \<open>\<^verbatim>\<open>try { body } catch (e) { handler }\<close>\<close>

definition try_catch :: "exn + 'a \<Rightarrow> (exn \<Rightarrow> exn + 'a) \<Rightarrow> exn + 'a" where
  "try_catch body handler = (case body of Inl e \<Rightarrow> handler e | Inr v \<Rightarrow> Inr v)"

text \<open>The inner \<^verbatim>\<open>try\<close>: parse the payload and build the report, or fall back.\<close>

definition parseFeedback :: "jsstring \<Rightarrow> GestureMetrics option \<Rightarrow> exn + FeedbackData" where
  "parseFeedback jsonText g =
     try_catch
       (case sanitizeAndParseJSON jsonText of
          Inl e \<Rightarrow> Inl e
        | Inr parsed \<Rightarrow> fromParsed parsed g)
       (\<lambda>parseError. Inr (invalidFormatData g))"

definition finalTranscript :: "app \<Rightarrow> jsstring" where
  "finalTranscript s =
     fullTranscriptRef s
     @ (if truthy_str (currentInputRef s)
        then str ''\<newline>Candidate (Final): '' @ currentInputRef s else [])
     @ (if truthy_str (currentOutputRef s)
        then str ''\<newline>Interviewer (Final): '' @ currentOutputRef s else [])"

text \<open>
  What the handler meets: the gesture snapshot taken first, whether the credential is
  present, how the remote call ends (rejected, or a response whose \<^verbatim>\<open>text\<close> may be
  undefined), and the value that \<^verbatim>\<open>stateRef.current\<close> holds when the handler reaches its
  check. That value is the state at the last render: \<^verbatim>\<open>ANALYZING\<close> unless the state was
  changed while the handler was waiting. The handler's waits and remote calls are logged as
  effects; the state it returns holds its own writes.
\<close>

datatype remote_outcome = Rejected | Responded "jsstring option"

record endEnv =
  gestureResults :: "GestureMetrics option"
  apiKey :: bool
  remoteOutcome :: remote_outcome
  observedState :: InterviewState

datatype effect = Wait nat | GenerateContent jsstring

definition analysisPrompt :: "jsstring \<Rightarrow> jsstring" where
  "analysisPrompt transcript =
     FEEDBACK_GENERATION_PROMPT @ str ''\<newline>\<newline>TRANSCRIPT:\<newline>'' @ transcript"

text \<open>\<^verbatim>\<open>setFeedback\<close> and \<^verbatim>\<open>setState(FEEDBACK)\<close> under the guard on \<^verbatim>\<open>stateRef.current\<close>.\<close>

definition publish :: "endEnv \<Rightarrow> FeedbackData \<Rightarrow> app \<Rightarrow> app" where
  "publish env fd s =
     (if observedState env = ANALYZING then s\<lparr>feedback := Some fd, state := FEEDBACK\<rparr>
      else s)"

text \<open>\<^verbatim>\<open>response.text || "{}"\<close>\<close>

definition responseText :: "jsstring option \<Rightarrow> jsstring" where
  "responseText t =
     (case t of None \<Rightarrow> str ''{}'' | Some x \<Rightarrow> if truthy_str x then x else str ''{}'')"

text \<open>The body of the outer \<^verbatim>\<open>try\<close>, up to the report it builds.\<close>

definition remoteAnalysis :: "endEnv \<Rightarrow> exn + FeedbackData" where
  "remoteAnalysis env =
     (if \<not> apiKey env then Inl (Error (str ''API Key missing''))
      else
        (case remoteOutcome env of
           Rejected \<Rightarrow> Inl RemoteFailure
         | Responded t \<Rightarrow> parseFeedback (responseText t) (gestureResults env)))"

text \<open>
  The start of the handler: the token is invalidated, all media are stopped and the state
  becomes \<^verbatim>\<open>ANALYZING\<close>.
\<close>

definition beginAnalysis :: "app \<Rightarrow> app" where
  "beginAnalysis s = (stopAllMedia (s\<lparr>currentSessionIdRef := []\<rparr>))\<lparr>state := ANALYZING\<rparr>"

definition handleEndInterview :: "endEnv \<Rightarrow> app \<Rightarrow> exn + app \<times> effect list" where
  "handleEndInterview env s =
     (let s1 = beginAnalysis s;
          transcript = finalTranscript s1
      in if \<not> truthy_str transcript \<or> length transcript < 10
         then Inr (publish env (emptyData (gestureResults env)) s1, [Wait 2000])
         else
           try_catch
             (case remoteAnalysis env of
                Inl e \<Rightarrow> Inl e
              | Inr feedbackData \<Rightarrow>
                  Inr (publish env feedbackData s1,
                       [GenerateContent (analysisPrompt transcript)]))
             (\<lambda>e. Inr (publish env (emergencyData (gestureResults env)) s1,
                        if apiKey env then [GenerateContent (analysisPrompt transcript)]
                        else [])))"

section \<open>Example sessions\<close>

text \<open>
  Concrete states and messages used to evaluate the handlers: a session that has been
  started and opened, messages of each kind, and the state in the middle of a turn (text
  of both speakers received and a two-second buffer scheduled at clock 0), and the state
  after a candidate transcription that is a single space.
\<close>

definition sid :: jsstring where "sid = str ''1700000000000''"
definition sid2 :: jsstring where "sid2 = str ''1700000060000''"

definition goodStart :: startEnv where
  "goodStart = \<lparr>online = True, hasApiKey = True, micGranted = True\<rparr>"

definition activeSession :: app where
  "activeSession = onopen sid (startInterview goodStart sid initialApp)"

definition turnCompleteMsg :: LiveServerMessage where
  "turnCompleteMsg =
     \<lparr>outputTranscription = None, inputTranscription = None, turnComplete = True,
      interrupted = False, inlineData = None\<rparr>"

definition interruptedMsg :: LiveServerMessage where
  "interruptedMsg =
     \<lparr>outputTranscription = None, inputTranscription = None, turnComplete = False,
      interrupted = True, inlineData = None\<rparr>"

definition speechMsg :: LiveServerMessage where
  "speechMsg =
     \<lparr>outputTranscription = Some (str ''yo''), inputTranscription = Some (str ''hi''),
      turnComplete = False, interrupted = False, inlineData = Some (str ''AAAA'')\<rparr>"

definition midTurn :: app where
  "midTurn = onmessage_audio (Some 2) 0 (fst (onmessage sid speechMsg 0 activeSession))"

definition blankMsg :: LiveServerMessage where
  "blankMsg =
     \<lparr>outputTranscription = None, inputTranscription = Some (str '' ''),
      turnComplete = False, interrupted = False, inlineData = None\<rparr>"

definition blankTurn :: app where
  "blankTurn = fst (onmessage sid blankMsg 0 activeSession)"

definition audioMsg :: LiveServerMessage where
  "audioMsg =
     \<lparr>outputTranscription = None, inputTranscription = None, turnComplete = False,
      interrupted = False, inlineData = Some (str ''AAAA'')\<rparr>"

text \<open>
  A session with one committed turn, whose transcript is
  \<^verbatim>\<open>Candidate: I built a cache.\nInterviewer: Good job.\n\<close>, the payload of the recovery
  scenario, its slice between the braces, and the slice after the trailing-comma pass.
\<close>

definition cacheTurnMsg :: LiveServerMessage where
  "cacheTurnMsg =
     \<lparr>outputTranscription = Some (str ''Good job.''),
      inputTranscription = Some (str ''I built a cache.''),
      turnComplete = True, interrupted = False, inlineData = None\<rparr>"

definition cacheSession :: app where
  "cacheSession = fst (onmessage sid cacheTurnMsg 0 activeSession)"

definition scenarioPayload :: jsstring where
  \<open>scenarioPayload = str ''```json\<newline>{"score":82,"summary":"Solid.","strengths":["Clear"],"improvements":["Depth",],"metrics":{"technical":7}}\<newline>```''\<close>

definition scenarioSlice :: jsstring where
  \<open>scenarioSlice = str ''{"score":82,"summary":"Solid.","strengths":["Clear"],"improvements":["Depth",],"metrics":{"technical":7}}''\<close>

definition scenarioNormalized :: jsstring where
  \<open>scenarioNormalized = str ''{"score":82,"summary":"Solid.","strengths":["Clear"],"improvements":["Depth"],"metrics":{"technical":7}}''\<close>

definition scenarioReport :: "GestureMetrics option \<Rightarrow> FeedbackData" where
  "scenarioReport g =
     \<lparr>score = 82,
      summary = JStr (str ''Solid.''),
      strengths = [JStr (str ''Clear'')],
      improvements = [JStr (str ''Depth'')],
      metrics = \<lparr>technical = JNum 7, communication = JNum 0, confidence = JNum 0,
                 clarity = JNum 0, problemSolving = JNum 0\<rparr>,
      gestureMetrics = g\<rparr>"

definition prose :: jsstring where
  "prose = str ''I am sorry, I cannot score this interview.''"

definition untypedPayload :: jsstring where
  \<open>untypedPayload = str ''{"score":"9","summary":5,"strengths":[1],"metrics":{"technical":"high"}}''\<close>

definition scenarioParsed :: jsvalue where
  "scenarioParsed =
     JObj [(str ''score'', JNum 82),
           (str ''summary'', JStr (str ''Solid.'')),
           (str ''strengths'', JArr [JStr (str ''Clear'')]),
           (str ''improvements'', JArr [JStr (str ''Depth'')]),
           (str ''metrics'', JObj [(str ''technical'', JNum 7)])]"

text \<open>An environment without a gesture snapshot and with the credential present.\<close>

definition endEnvOf :: "remote_outcome \<Rightarrow> InterviewState \<Rightarrow> endEnv" where
  "endEnvOf r st = \<lparr>gestureResults = None, apiKey = True, remoteOutcome = r, observedState = st\<rparr>"

section \<open>Playback scheduling\<close>

lemma scheduleAll_Nil: "scheduleAll s [] = s"
  by (simp add: scheduleAll_def)

lemma scheduleAll_snoc:
  "scheduleAll s (bs @ [(d, now)]) = onmessage_audio (Some d) now (scheduleAll s bs)"
  by (simp add: scheduleAll_def)

lemma sourcesRef_scheduleAll:
  "\<exists>ns. sourcesRef (scheduleAll s bs) = sourcesRef s @ ns \<and> length ns = length bs"
proof (induction bs rule: rev_induct)
  case Nil
  then show ?case by (simp add: scheduleAll_Nil)
next
  case (snoc b bs)
  obtain d now where b: "b = (d, now)" by (cases b)
  from snoc obtain ns where ns: "sourcesRef (scheduleAll s bs) = sourcesRef s @ ns"
    and len: "length ns = length bs" by blast
  have "sourcesRef (scheduleAll s (bs @ [b])) =
        sourcesRef s @ (ns @ [\<lparr>nodeId = nextNodeId (scheduleAll s bs),
                                startAt = max (nextStartTimeRef (scheduleAll s bs)) now,
                                bufDuration = d\<rparr>])"
    by (simp add: b scheduleAll_snoc onmessage_audio_def Let_def ns)
  with len show ?case by (metis length_append_singleton)
qed

lemma length_scheduled: "length (scheduled s bs) = length bs"
  using sourcesRef_scheduleAll [of s bs] by (auto simp: scheduled_def)

lemma scheduled_snoc:
  "scheduled s (bs @ [(d, now)]) =
     scheduled s bs @ [\<lparr>nodeId = nextNodeId (scheduleAll s bs),
                         startAt = max (nextStartTimeRef (scheduleAll s bs)) now,
                         bufDuration = d\<rparr>]"
proof -
  obtain ns where ns: "sourcesRef (scheduleAll s bs) = sourcesRef s @ ns"
    using sourcesRef_scheduleAll [of s bs] by blast
  show ?thesis
    by (simp add: scheduled_def scheduleAll_snoc onmessage_audio_def Let_def ns)
qed

lemma scheduled_nth:
  "i < length bs \<Longrightarrow>
   scheduled s bs ! i =
     \<lparr>nodeId = nextNodeId (scheduleAll s (take i bs)),
      startAt = max (nextStartTimeRef (scheduleAll s (take i bs))) (snd (bs ! i)),
      bufDuration = fst (bs ! i)\<rparr>"
proof (induction bs rule: rev_induct)
  case Nil
  then show ?case by simp
next
  case (snoc b bs)
  obtain d now where b: "b = (d, now)" by (cases b)
  show ?case
  proof (cases "i < length bs")
    case True
    with snoc.IH show ?thesis
      by (simp add: b scheduled_snoc nth_append length_scheduled)
  next
    case False
    with snoc.prems have "i = length bs" by simp
    then show ?thesis
      by (simp add: b scheduled_snoc nth_append length_scheduled)
  qed
qed

lemma cursor_after:
  "i < length bs \<Longrightarrow>
   nextStartTimeRef (scheduleAll s (take (Suc i) bs)) =
     startAt (scheduled s bs ! i) + fst (bs ! i)"
proof -
  assume i: "i < length bs"
  obtain d now where b: "bs ! i = (d, now)" by (cases "bs ! i")
  from i have "take (Suc i) bs = take i bs @ [(d, now)]"
    by (simp add: take_Suc_conv_app_nth b)
  then show ?thesis
    using i by (simp add: scheduleAll_snoc scheduled_nth b onmessage_audio_def Let_def)
qed

text \<open>
  C2. Each decoded buffer is started at the maximum of the timeline cursor and the
  clock, and the cursor is then advanced by the buffer's duration. Hence, in a run of
  buffers with durations \<open>fst (bs ! i)\<close> resumed at clocks \<open>snd (bs ! i)\<close>, buffer
  \<open>i + 1\<close> never starts before buffer \<open>i\<close> has ended, and starts exactly when buffer
  \<open>i\<close> ends if its clock is not later than that. Two buffers of 0.5 s at clock 10.0,
  the cursor not beyond 10.0, start at 10.0 and 10.5 and leave the cursor at 11.0.
\<close>

theorem gapless_no_overlap:
  "(\<forall>i < length bs.
      startAt (scheduled s bs ! i) =
        max (nextStartTimeRef (scheduleAll s (take i bs))) (snd (bs ! i)) \<and>
      bufDuration (scheduled s bs ! i) = fst (bs ! i) \<and>
      nextStartTimeRef (scheduleAll s (take (Suc i) bs)) =
        startAt (scheduled s bs ! i) + fst (bs ! i)) \<and>
   length (scheduled s bs) = length bs \<and>
   (\<forall>i. Suc i < length bs \<longrightarrow>
      startAt (scheduled s bs ! i) + fst (bs ! i) \<le> startAt (scheduled s bs ! Suc i)) \<and>
   (\<forall>i. Suc i < length bs \<longrightarrow>
      snd (bs ! Suc i) \<le> startAt (scheduled s bs ! i) + fst (bs ! i) \<longrightarrow>
      startAt (scheduled s bs ! Suc i) = startAt (scheduled s bs ! i) + fst (bs ! i)) \<and>
   (nextStartTimeRef s \<le> 10 \<longrightarrow>
      map startAt (scheduled s [(0.5, 10), (0.5, 10)]) = [10, 10.5] \<and>
      nextStartTimeRef (scheduleAll s [(0.5, 10), (0.5, 10)]) = 11)"
proof -
  have step: "startAt (scheduled s bs ! Suc i) =
      max (startAt (scheduled s bs ! i) + fst (bs ! i)) (snd (bs ! Suc i))"
    if "Suc i < length bs" for i
  proof -
    from that have "i < length bs" by simp
    from cursor_after [OF this] scheduled_nth [OF that]
    show ?thesis by simp
  qed
  have a: "\<forall>i < length bs.
      startAt (scheduled s bs ! i) =
        max (nextStartTimeRef (scheduleAll s (take i bs))) (snd (bs ! i)) \<and>
      bufDuration (scheduled s bs ! i) = fst (bs ! i) \<and>
      nextStartTimeRef (scheduleAll s (take (Suc i) bs)) =
        startAt (scheduled s bs ! i) + fst (bs ! i)"
    by (simp add: scheduled_nth cursor_after)
  have b: "\<forall>i. Suc i < length bs \<longrightarrow>
      startAt (scheduled s bs ! i) + fst (bs ! i) \<le> startAt (scheduled s bs ! Suc i)"
    by (simp add: step)
  have c: "\<forall>i. Suc i < length bs \<longrightarrow>
      snd (bs ! Suc i) \<le> startAt (scheduled s bs ! i) + fst (bs ! i) \<longrightarrow>
      startAt (scheduled s bs ! Suc i) = startAt (scheduled s bs ! i) + fst (bs ! i)"
    by (simp add: step)
  have d: "nextStartTimeRef s \<le> 10 \<longrightarrow>
      map startAt (scheduled s [(0.5, 10), (0.5, 10)]) = [10, 10.5] \<and>
      nextStartTimeRef (scheduleAll s [(0.5, 10), (0.5, 10)]) = 11"
    by (simp add: scheduled_def scheduleAll_def onmessage_audio_def Let_def)
  from a b c d length_scheduled [of s bs] show ?thesis by blast
qed


text \<open>The example states, evaluated.\<close>

lemma activeSession_eval:
  "activeSession =
     \<lparr>state = ACTIVE, currentSessionIdRef = sid, nextStartTimeRef = 0,
      sourcesRef = [\<lparr>nodeId = 0, startAt = 0, bufDuration = 1 / 16000\<rparr>,
                    \<lparr>nodeId = 1, startAt = 0, bufDuration = 1 / 24000\<rparr>],
      stopped = [], nextNodeId = 2, currentInputRef = [], currentOutputRef = [],
      fullTranscriptRef = [], transcripts = [], currentInputTrans = [],
      currentOutputTrans = [], tokenUsage = 0, outputAudioContextRef = Some Running,
      feedback = None\<rparr>"
  by (simp add: activeSession_def onopen_def startInterview_def goodStart_def initialApp_def
      stopAllMedia_def Let_def)

lemma sid_neq: "sid \<noteq> []" "sid2 \<noteq> sid"
  by (simp_all add: sid_def sid2_def str_def)

lemma midTurn_eval:
  "midTurn =
     \<lparr>state = ACTIVE, currentSessionIdRef = sid, nextStartTimeRef = 2,
      sourcesRef = [\<lparr>nodeId = 0, startAt = 0, bufDuration = 1 / 16000\<rparr>,
                    \<lparr>nodeId = 1, startAt = 0, bufDuration = 1 / 24000\<rparr>,
                    \<lparr>nodeId = 2, startAt = 0, bufDuration = 2\<rparr>],
      stopped = [], nextNodeId = 3, currentInputRef = str ''hi'',
      currentOutputRef = str ''yo'', fullTranscriptRef = [], transcripts = [],
      currentInputTrans = str ''hi'', currentOutputTrans = str ''yo'', tokenUsage = 0,
      outputAudioContextRef = Some Running, feedback = None\<rparr>"
  by (simp add: midTurn_def activeSession_eval onmessage_def speechMsg_def
      handleOutputText_def handleInputText_def truthy_str_def str_def
      onmessage_audio_def Let_def)

lemma nonblank_hi: "truthy_str (trim (str ''hi''))"
  by (simp add: truthy_str_def trim_def str_def is_ws_def)

theorem gapless_no_overlap_witness:
  "Suc 0 < length [(0.5::real, 10::real), (0.5, 12)] \<and>
   nextStartTimeRef initialApp \<le> 10 \<and>
   startAt (scheduled initialApp [(0.5, 10), (0.5, 12)] ! 0) + 0.5
     \<le> startAt (scheduled initialApp [(0.5, 10), (0.5, 12)] ! Suc 0) \<and>
   map startAt (scheduled initialApp [(0.5, 10), (0.5, 10)]) = [10, 10.5] \<and>
   nextStartTimeRef (scheduleAll initialApp [(0.5, 10), (0.5, 10)]) = 11"
proof -
  have z: "nextStartTimeRef initialApp \<le> 10" by (simp add: initialApp_def)
  have len: "Suc 0 < length [(0.5::real, 10::real), (0.5, 12)]" by simp
  have c: "startAt (scheduled initialApp [(0.5, 10), (0.5, 12)] ! 0)
             + fst ([(0.5::real, 10::real), (0.5, 12)] ! 0)
           \<le> startAt (scheduled initialApp [(0.5, 10), (0.5, 12)] ! Suc 0)"
    using gapless_no_overlap [of "[(0.5, 10), (0.5, 12)]" initialApp,
        THEN conjunct2, THEN conjunct2, THEN conjunct1, rule_format, OF len] .
  have e: "map startAt (scheduled initialApp [(0.5, 10), (0.5, 10)]) = [10, 10.5] \<and>
           nextStartTimeRef (scheduleAll initialApp [(0.5, 10), (0.5, 10)]) = 11"
    using gapless_no_overlap [of "[]" initialApp,
        THEN conjunct2, THEN conjunct2, THEN conjunct2, THEN conjunct2, rule_format, OF z] .
  from z len c e show ?thesis by simp
qed

section \<open>Capture: resampling\<close>

text \<open>
  Every index the downsampling loop reads lies inside the block, and for a whole-number
  ratio the loop takes every \<open>k\<close>-th sample.
\<close>

lemma downsample_index_in_range:
  assumes r: "targetSampleRate < sourceSampleRate"
    and i: "i < nat \<lfloor>real (length inputData) / (sourceSampleRate / targetSampleRate)\<rfloor>"
  shows "nat \<lfloor>real i * (sourceSampleRate / targetSampleRate)\<rfloor> < length inputData"
proof -
  define ratio where "ratio = sourceSampleRate / targetSampleRate"
  have t: "0 < targetSampleRate" by (simp add: targetSampleRate_def)
  with r have ratio: "1 < ratio" by (simp add: ratio_def)
  from i have "int i + 1 \<le> \<lfloor>real (length inputData) / ratio\<rfloor>"
    by (simp add: ratio_def)
  then have "real i + 1 \<le> real (length inputData) / ratio"
    by (metis le_floor_iff of_int_1 of_int_add of_int_of_nat_eq)
  with ratio have "(real i + 1) * ratio \<le> real (length inputData)"
    by (simp add: pos_le_divide_eq)
  then have "real i * ratio + ratio \<le> real (length inputData)"
    by (simp add: algebra_simps)
  with ratio have lt: "real i * ratio < real (length inputData)" by linarith
  have nonneg: "0 \<le> real i * ratio" using ratio by simp
  have "real_of_int \<lfloor>real i * ratio\<rfloor> \<le> real i * ratio" by (rule of_int_floor_le)
  with lt have "real_of_int \<lfloor>real i * ratio\<rfloor> < real (length inputData)" by linarith
  then have fl: "\<lfloor>real i * ratio\<rfloor> < int (length inputData)" by linarith
  have "0 \<le> \<lfloor>real i * ratio\<rfloor>" using nonneg by simp
  with fl have "nat \<lfloor>real i * ratio\<rfloor> < length inputData"
    by (simp only: nat_less_iff)
  then show ?thesis by (simp only: ratio_def)
qed

lemma downsample_whole_ratio:
  assumes k: "sourceSampleRate = targetSampleRate * real k"
    and r: "targetSampleRate < sourceSampleRate"
  shows "downsample sourceSampleRate inputData =
           map (\<lambda>i. inputData ! (i * k)) [0..<length inputData div k]"
proof -
  have ratio: "sourceSampleRate / targetSampleRate = real k"
    using k by (simp add: targetSampleRate_def)
  have len: "nat \<lfloor>real (length inputData) / real k\<rfloor> = length inputData div k"
    by (simp add: floor_divide_of_nat_eq)
  have idx: "nat \<lfloor>real i * real k\<rfloor> = i * k" for i
  proof -
    have "real i * real k = real (i * k)" by simp
    then show ?thesis by (simp only: floor_of_nat nat_int)
  qed
  show ?thesis
    using r by (simp add: downsample_def Let_def ratio len idx)
qed

text \<open>
  C5 (as the code has it). When the native rate exceeds the wire rate of 16 kHz, the
  frame has \<open>\<lfloor>n / r\<rfloor>\<close> samples for a block of \<open>n\<close> samples and the ratio
  \<open>r = native / wire\<close>, which is not truncated, and sample \<open>i\<close> of the frame is sample
  \<open>\<lfloor>i * r\<rfloor>\<close> of the block: the index is truncated, not the ratio. Every sample of the
  frame is a sample of the block (nothing is interpolated or filtered). When the ratio is
  a whole number \<open>k\<close> the frame is every \<open>k\<close>-th sample.
\<close>

theorem downsample_decimates:
  "targetSampleRate < sourceSampleRate \<longrightarrow>
     length (downsample sourceSampleRate inputData) =
       nat \<lfloor>real (length inputData) / (sourceSampleRate / targetSampleRate)\<rfloor> \<and>
     (\<forall>i < length (downsample sourceSampleRate inputData).
        downsample sourceSampleRate inputData ! i =
          inputData ! nat \<lfloor>real i * (sourceSampleRate / targetSampleRate)\<rfloor> \<and>
        nat \<lfloor>real i * (sourceSampleRate / targetSampleRate)\<rfloor> < length inputData) \<and>
     set (downsample sourceSampleRate inputData) \<subseteq> set inputData \<and>
     (\<forall>k. sourceSampleRate = targetSampleRate * real k \<longrightarrow>
        downsample sourceSampleRate inputData =
          map (\<lambda>i. inputData ! (i * k)) [0..<length inputData div k]) \<and>
     (currentSessionIdRef s = newSessionId \<longrightarrow>
        onaudioprocess newSessionId sourceSampleRate inputData s =
          Some (downsample sourceSampleRate inputData, 16000))"
proof
  assume r: "targetSampleRate < sourceSampleRate"
  define n where "n = nat \<lfloor>real (length inputData) / (sourceSampleRate / targetSampleRate)\<rfloor>"
  have d: "downsample sourceSampleRate inputData =
      map (\<lambda>i. inputData ! nat \<lfloor>real i * (sourceSampleRate / targetSampleRate)\<rfloor>) [0..<n]"
    using r by (simp add: downsample_def Let_def n_def)
  have len: "length (downsample sourceSampleRate inputData) = n" by (simp add: d)
  have nth: "downsample sourceSampleRate inputData ! i =
      inputData ! nat \<lfloor>real i * (sourceSampleRate / targetSampleRate)\<rfloor>" if "i < n" for i
    using that by (simp add: d)
  have rng: "nat \<lfloor>real i * (sourceSampleRate / targetSampleRate)\<rfloor> < length inputData"
    if "i < n" for i
    using r that unfolding n_def by (rule downsample_index_in_range)
  have sub: "set (downsample sourceSampleRate inputData) \<subseteq> set inputData"
    using rng by (auto simp: d)
  have whole: "\<forall>k. sourceSampleRate = targetSampleRate * real k \<longrightarrow>
        downsample sourceSampleRate inputData =
          map (\<lambda>i. inputData ! (i * k)) [0..<length inputData div k]"
    using r by (simp add: downsample_whole_ratio)
  have cb: "currentSessionIdRef s = newSessionId \<longrightarrow>
        onaudioprocess newSessionId sourceSampleRate inputData s =
          Some (downsample sourceSampleRate inputData, 16000)"
    by (simp add: onaudioprocess_def targetSampleRate_def)
  from len nth rng sub whole cb
  show "length (downsample sourceSampleRate inputData) =
       nat \<lfloor>real (length inputData) / (sourceSampleRate / targetSampleRate)\<rfloor> \<and>
     (\<forall>i < length (downsample sourceSampleRate inputData).
        downsample sourceSampleRate inputData ! i =
          inputData ! nat \<lfloor>real i * (sourceSampleRate / targetSampleRate)\<rfloor> \<and>
        nat \<lfloor>real i * (sourceSampleRate / targetSampleRate)\<rfloor> < length inputData) \<and>
     set (downsample sourceSampleRate inputData) \<subseteq> set inputData \<and>
     (\<forall>k. sourceSampleRate = targetSampleRate * real k \<longrightarrow>
        downsample sourceSampleRate inputData =
          map (\<lambda>i. inputData ! (i * k)) [0..<length inputData div k]) \<and>
     (currentSessionIdRef s = newSessionId \<longrightarrow>
        onaudioprocess newSessionId sourceSampleRate inputData s =
          Some (downsample sourceSampleRate inputData, 16000))"
    unfolding n_def [symmetric] by simp
qed

lemma ds441: "downsample 44100 [0::nat, 1, 2, 3, 4, 5, 6, 7] = [0, 2]"
  by (simp add: downsample_def targetSampleRate_def Let_def upt_rec)

lemma dt441: "decimate_truncated_ratio 44100 [0::nat, 1, 2, 3, 4, 5, 6, 7] = [0, 2, 4, 6]"
  by (simp add: decimate_truncated_ratio_def targetSampleRate_def Let_def upt_rec)

theorem downsample_decimates_witness:
  "targetSampleRate < 48000 \<and>
   (48000::real) = targetSampleRate * real (3::nat) \<and>
   currentSessionIdRef activeSession = sid \<and>
   length (downsample 48000 [0::nat, 1, 2, 3, 4, 5, 6, 7]) = 2 \<and>
   downsample 48000 [0::nat, 1, 2, 3, 4, 5, 6, 7] = [0, 3] \<and>
   onaudioprocess sid 48000 [0::nat, 1, 2, 3, 4, 5, 6, 7] activeSession = Some ([0, 3], 16000)"
proof -
  have r: "targetSampleRate < 48000" by (simp add: targetSampleRate_def)
  have k: "(48000::real) = targetSampleRate * real (3::nat)" by (simp add: targetSampleRate_def)
  have i: "currentSessionIdRef activeSession = sid" by (simp add: activeSession_eval)
  note d = downsample_decimates [of 48000 "[0::nat, 1, 2, 3, 4, 5, 6, 7]" activeSession sid,
      rule_format, OF r]
  from d k have w: "downsample 48000 [0::nat, 1, 2, 3, 4, 5, 6, 7] =
      map (\<lambda>i. [0::nat, 1, 2, 3, 4, 5, 6, 7] ! (i * 3)) [0..<length [0::nat, 1, 2, 3, 4, 5, 6, 7] div 3]"
    by blast
  have v: "downsample 48000 [0::nat, 1, 2, 3, 4, 5, 6, 7] = [0, 3]"
    unfolding w by (simp add: upt_rec)
  from d i have "onaudioprocess sid 48000 [0::nat, 1, 2, 3, 4, 5, 6, 7] activeSession =
      Some (downsample 48000 [0::nat, 1, 2, 3, 4, 5, 6, 7], 16000)" by blast
  with r k i v show ?thesis by simp
qed

text \<open>
  C5 as stated fails: at 44.1 kHz the ratio is 2.75625, truncated 2. Of a block of eight
  samples the code keeps samples 0 and 2 (two samples), while decimation at the truncated
  ratio keeps samples 0, 2, 4 and 6. None of the quotients and products involved is near
  a whole number, so double precision gives the same.
\<close>

theorem downsample_not_truncated_ratio:
  "targetSampleRate < 44100 \<and>
   nat \<lfloor>44100 / targetSampleRate\<rfloor> = 2 \<and>
   downsample 44100 [0::nat, 1, 2, 3, 4, 5, 6, 7] = [0, 2] \<and>
   decimate_truncated_ratio 44100 [0::nat, 1, 2, 3, 4, 5, 6, 7] = [0, 2, 4, 6] \<and>
   downsample 44100 [0::nat, 1, 2, 3, 4, 5, 6, 7]
     \<noteq> decimate_truncated_ratio 44100 [0::nat, 1, 2, 3, 4, 5, 6, 7]"
  unfolding ds441 dt441 by (simp add: targetSampleRate_def)

text \<open>
  C6. When the native rate is at most the wire rate, in particular at 16 kHz, the
  resampling step returns the block itself, and that block is what the callback frames.
\<close>

theorem resample_pass_through:
  "(sourceSampleRate \<le> targetSampleRate \<longrightarrow>
      downsample sourceSampleRate inputData = inputData \<and>
      (currentSessionIdRef s = newSessionId \<longrightarrow>
         onaudioprocess newSessionId sourceSampleRate inputData s = Some (inputData, 16000))) \<and>
   downsample 16000 inputData = inputData"
  by (simp add: downsample_def onaudioprocess_def targetSampleRate_def)

theorem resample_pass_through_witness:
  "(16000::real) \<le> targetSampleRate \<and>
   currentSessionIdRef activeSession = sid \<and>
   downsample 16000 [0.25::real, - 0.5, 1] = [0.25, - 0.5, 1] \<and>
   onaudioprocess sid 16000 [0.25::real, - 0.5, 1] activeSession
     = Some ([0.25, - 0.5, 1], 16000) \<and>
   downsample 8000 [0.25::real, - 0.5, 1] = [0.25, - 0.5, 1]"
proof -
  have r: "(16000::real) \<le> targetSampleRate" "(8000::real) \<le> targetSampleRate"
    by (simp_all add: targetSampleRate_def)
  have i: "currentSessionIdRef activeSession = sid" by (simp add: activeSession_eval)
  note a = resample_pass_through [of 16000 "[0.25::real, - 0.5, 1]" activeSession sid,
      THEN conjunct1, rule_format, OF r(1)]
  note b = resample_pass_through [of 8000 "[0.25::real, - 0.5, 1]" activeSession sid,
      THEN conjunct1, rule_format, OF r(2)]
  from a i have "onaudioprocess sid 16000 [0.25::real, - 0.5, 1] activeSession
     = Some ([0.25, - 0.5, 1], 16000)" by blast
  with a b r i show ?thesis by simp
qed

section \<open>Turn aggregation\<close>

text \<open>
  Trimming leaves something exactly when the string has a code unit that is not white
  space; the token estimate in integer arithmetic.
\<close>

lemma truthy_trim: "truthy_str (trim x) \<longleftrightarrow> (\<exists>c\<in>set x. \<not> is_ws c)"
proof -
  have "(\<exists>c\<in>set (dropWhile is_ws x). \<not> is_ws c) \<longleftrightarrow> (\<exists>c\<in>set x. \<not> is_ws c)"
  proof
    assume "\<exists>c\<in>set (dropWhile is_ws x). \<not> is_ws c"
    then show "\<exists>c\<in>set x. \<not> is_ws c" by (blast dest: set_dropWhileD)
  next
    assume "\<exists>c\<in>set x. \<not> is_ws c"
    then have ne: "dropWhile is_ws x \<noteq> []" by (simp add: dropWhile_eq_Nil_conv)
    then have "\<not> is_ws (hd (dropWhile is_ws x))" by (rule hd_dropWhile)
    with ne show "\<exists>c\<in>set (dropWhile is_ws x). \<not> is_ws c"
      by (metis hd_in_set)
  qed
  then show ?thesis
    by (simp add: truthy_str_def trim_def dropWhile_eq_Nil_conv)
qed

lemma newTokens_div: "newTokens input output = (2 * (length input + length output) + 6) div 7"
proof -
  define n where "n = length input + length output"
  have eq: "real n / 3.5 = real (2 * n) / real 7" by simp
  have "\<lceil>real n / 3.5\<rceil> = \<lceil>real (2 * n) / real 7\<rceil>" by (simp only: eq)
  also have "\<dots> = - \<lfloor>- (real (2 * n) / real 7)\<rfloor>" by (simp add: ceiling_def)
  also have "\<dots> = - \<lfloor>real_of_int (- int (2 * n)) / real_of_int 7\<rfloor>" by simp
  also have "\<dots> = - ((- int (2 * n)) div 7)" by (simp only: floor_divide_of_int_eq)
  also have "\<dots> = int ((2 * n + 6) div 7)" by (simp add: zdiv_int)
  finally show ?thesis by (simp add: newTokens_def n_def)
qed

lemma on_interrupted:
  "currentSessionIdRef s = newSessionId \<Longrightarrow>
   onmessage newSessionId
     \<lparr>outputTranscription = None, inputTranscription = None, turnComplete = False,
      interrupted = True, inlineData = None\<rparr> now s
   = (handleInterrupted now s, False)"
  by (simp add: onmessage_def handleOutputText_def handleInputText_def)

lemma on_turnComplete:
  "currentSessionIdRef s = newSessionId \<Longrightarrow>
   onmessage newSessionId
     \<lparr>outputTranscription = None, inputTranscription = None, turnComplete = True,
      interrupted = False, inlineData = None\<rparr> now s
   = (handleTurnComplete s, False)"
  by (simp add: onmessage_def handleOutputText_def handleInputText_def)

lemma handleTurnComplete_effect:
  "(truthy_str (trim (currentInputRef s)) \<or> truthy_str (trim (currentOutputRef s)) \<longrightarrow>
      transcripts (handleTurnComplete s) =
        transcripts s @ [\<lparr>chatRole = User, chatText = currentInputRef s\<rparr>,
                         \<lparr>chatRole = Model, chatText = currentOutputRef s\<rparr>] \<and>
      fullTranscriptRef (handleTurnComplete s) =
        fullTranscriptRef s @ str ''Candidate: '' @ currentInputRef s
        @ str ''\<newline>Interviewer: '' @ currentOutputRef s @ str ''\<newline>'' \<and>
      tokenUsage (handleTurnComplete s) =
        tokenUsage s + newTokens (currentInputRef s) (currentOutputRef s)) \<and>
   (\<not> (truthy_str (trim (currentInputRef s)) \<or> truthy_str (trim (currentOutputRef s))) \<longrightarrow>
      transcripts (handleTurnComplete s) = transcripts s \<and>
      fullTranscriptRef (handleTurnComplete s) = fullTranscriptRef s \<and>
      tokenUsage (handleTurnComplete s) = tokenUsage s) \<and>
   currentInputRef (handleTurnComplete s) = [] \<and>
   currentOutputRef (handleTurnComplete s) = [] \<and>
   nextStartTimeRef (handleTurnComplete s) = nextStartTimeRef s \<and>
   sourcesRef (handleTurnComplete s) = sourcesRef s"
  by (simp add: handleTurnComplete_def Let_def)

lemma handleInterrupted_effect:
  "sourcesRef (handleInterrupted now s) = [] \<and>
   stopped (handleInterrupted now s) = stopped s @ sourcesRef s \<and>
   nextStartTimeRef (handleInterrupted now s) =
     (case outputAudioContextRef s of None \<Rightarrow> 0 | Some c \<Rightarrow> now) \<and>
   tokenUsage (handleInterrupted now s) = tokenUsage s \<and>
   (truthy_str (trim (currentInputRef s)) \<or> truthy_str (trim (currentOutputRef s)) \<longrightarrow>
      transcripts (handleInterrupted now s) =
        transcripts s @ [\<lparr>chatRole = User, chatText = currentInputRef s\<rparr>,
                         \<lparr>chatRole = Model,
                          chatText = currentOutputRef s @ str '' (interrupted)''\<rparr>] \<and>
      fullTranscriptRef (handleInterrupted now s) =
        fullTranscriptRef s @ str ''Candidate: '' @ currentInputRef s
        @ str ''\<newline>Interviewer: '' @ currentOutputRef s @ str '' (interrupted)\<newline>'' \<and>
      currentInputRef (handleInterrupted now s) = [] \<and>
      currentOutputRef (handleInterrupted now s) = []) \<and>
   (\<not> (truthy_str (trim (currentInputRef s)) \<or> truthy_str (trim (currentOutputRef s))) \<longrightarrow>
      transcripts (handleInterrupted now s) = transcripts s \<and>
      fullTranscriptRef (handleInterrupted now s) = fullTranscriptRef s \<and>
      currentInputRef (handleInterrupted now s) = currentInputRef s \<and>
      currentOutputRef (handleInterrupted now s) = currentOutputRef s)"
  by (simp add: handleInterrupted_def Let_def)

text \<open>
  C3 (as the code has it). On a turn-complete event the pending turn is committed when
  either accumulator holds a code unit that is not white space, that is when it is not
  empty after trimming: the two chat messages are appended to the transcript list, the
  line \<^verbatim>\<open>Candidate: <input>\nInterviewer: <output>\n\<close> is appended to the transcript
  accumulator and the token counter grows by the ceiling of the summed lengths over 3.5.
  When both accumulators are blank nothing is committed. In both cases the accumulators
  are cleared.
\<close>

theorem turn_complete_commit:
  "(truthy_str (trim (currentInputRef s)) \<or> truthy_str (trim (currentOutputRef s)) \<longrightarrow>
      transcripts (handleTurnComplete s) =
        transcripts s @ [\<lparr>chatRole = User, chatText = currentInputRef s\<rparr>,
                         \<lparr>chatRole = Model, chatText = currentOutputRef s\<rparr>] \<and>
      fullTranscriptRef (handleTurnComplete s) =
        fullTranscriptRef s @ str ''Candidate: '' @ currentInputRef s
        @ str ''\<newline>Interviewer: '' @ currentOutputRef s @ str ''\<newline>'' \<and>
      tokenUsage (handleTurnComplete s) =
        tokenUsage s
        + nat \<lceil>real (length (currentInputRef s) + length (currentOutputRef s)) / 3.5\<rceil>) \<and>
   (\<not> (truthy_str (trim (currentInputRef s)) \<or> truthy_str (trim (currentOutputRef s))) \<longrightarrow>
      transcripts (handleTurnComplete s) = transcripts s \<and>
      fullTranscriptRef (handleTurnComplete s) = fullTranscriptRef s \<and>
      tokenUsage (handleTurnComplete s) = tokenUsage s) \<and>
   currentInputRef (handleTurnComplete s) = [] \<and>
   currentOutputRef (handleTurnComplete s) = [] \<and>
   (truthy_str (trim x) \<longleftrightarrow> (\<exists>c\<in>set x. \<not> is_ws c)) \<and>
   (currentSessionIdRef s = newSessionId \<longrightarrow>
      onmessage newSessionId
        \<lparr>outputTranscription = None, inputTranscription = None, turnComplete = True,
         interrupted = False, inlineData = None\<rparr> now s
      = (handleTurnComplete s, False))"
  by (simp add: handleTurnComplete_def Let_def newTokens_def truthy_trim onmessage_def
      handleOutputText_def handleInputText_def)

theorem turn_complete_commit_witness:
  "truthy_str (trim (currentInputRef midTurn)) \<and>
   currentSessionIdRef midTurn = sid \<and>
   transcripts (fst (onmessage sid turnCompleteMsg 1 midTurn)) =
     [\<lparr>chatRole = User, chatText = str ''hi''\<rparr>, \<lparr>chatRole = Model, chatText = str ''yo''\<rparr>] \<and>
   fullTranscriptRef (fst (onmessage sid turnCompleteMsg 1 midTurn)) =
     str ''Candidate: hi\<newline>Interviewer: yo\<newline>'' \<and>
   tokenUsage (fst (onmessage sid turnCompleteMsg 1 midTurn)) = 2 \<and>
   currentInputRef (fst (onmessage sid turnCompleteMsg 1 midTurn)) = [] \<and>
   currentOutputRef (fst (onmessage sid turnCompleteMsg 1 midTurn)) = []"
proof -
  note m = midTurn_eval
  have t: "truthy_str (trim (currentInputRef midTurn))"
    by (simp add: m truthy_str_def trim_def str_def is_ws_def)
  have i: "currentSessionIdRef midTurn = sid" by (simp add: m)
  note c = turn_complete_commit [of midTurn _ sid 1]
  have on: "onmessage sid turnCompleteMsg 1 midTurn = (handleTurnComplete midTurn, False)"
    using c [THEN conjunct2, THEN conjunct2, THEN conjunct2, THEN conjunct2, THEN conjunct2]
      i by (simp add: turnCompleteMsg_def)
  from c [THEN conjunct1] t
  have "transcripts (handleTurnComplete midTurn) =
          transcripts midTurn @ [\<lparr>chatRole = User, chatText = currentInputRef midTurn\<rparr>,
                                 \<lparr>chatRole = Model, chatText = currentOutputRef midTurn\<rparr>]"
    and "fullTranscriptRef (handleTurnComplete midTurn) =
          fullTranscriptRef midTurn @ str ''Candidate: '' @ currentInputRef midTurn
          @ str ''\<newline>Interviewer: '' @ currentOutputRef midTurn @ str ''\<newline>''"
    and "tokenUsage (handleTurnComplete midTurn) =
          tokenUsage midTurn
          + nat \<lceil>real (length (currentInputRef midTurn) + length (currentOutputRef midTurn)) / 3.5\<rceil>"
    by blast+
  moreover from c have "currentInputRef (handleTurnComplete midTurn) = []"
    and "currentOutputRef (handleTurnComplete midTurn) = []" by blast+
  ultimately show ?thesis
    using t i by (simp add: on) (simp add: m str_def)
qed

text \<open>
  C3 as stated fails: an accumulator that holds a single space is not empty, yet the
  turn-complete event commits nothing.
\<close>

theorem turn_complete_blank_not_committed:
  "currentInputRef blankTurn \<noteq> [] \<and>
   currentSessionIdRef blankTurn = sid \<and>
   transcripts (fst (onmessage sid turnCompleteMsg 1 blankTurn)) = transcripts blankTurn \<and>
   fullTranscriptRef (fst (onmessage sid turnCompleteMsg 1 blankTurn))
     = fullTranscriptRef blankTurn \<and>
   tokenUsage (fst (onmessage sid turnCompleteMsg 1 blankTurn)) = tokenUsage blankTurn"
  by (simp add: blankTurn_def blankMsg_def activeSession_eval onmessage_def
      turnCompleteMsg_def handleOutputText_def handleInputText_def handleTurnComplete_def
      Let_def truthy_str_def trim_def str_def is_ws_def)

text \<open>
  C4. An interrupted event stops every active node, empties the active set, resets the
  cursor to the clock and commits the pending turn with the marker, but unlike a
  turn-complete event it leaves the token counter alone: for the turn (hi, yo) the
  turn-complete path counts 2 tokens, the interrupted path none.
\<close>

theorem interrupted_skips_token_usage:
  "currentSessionIdRef midTurn = sid \<and>
   tokenUsage midTurn = 0 \<and>
   sourcesRef midTurn \<noteq> [] \<and>
   sourcesRef (fst (onmessage sid interruptedMsg 1 midTurn)) = [] \<and>
   stopped (fst (onmessage sid interruptedMsg 1 midTurn)) = sourcesRef midTurn \<and>
   nextStartTimeRef (fst (onmessage sid interruptedMsg 1 midTurn)) = 1 \<and>
   transcripts (fst (onmessage sid interruptedMsg 1 midTurn)) =
     [\<lparr>chatRole = User, chatText = str ''hi''\<rparr>,
      \<lparr>chatRole = Model, chatText = str ''yo (interrupted)''\<rparr>] \<and>
   fullTranscriptRef (fst (onmessage sid interruptedMsg 1 midTurn)) =
     str ''Candidate: hi\<newline>Interviewer: yo (interrupted)\<newline>'' \<and>
   transcripts (fst (onmessage sid turnCompleteMsg 1 midTurn)) =
     [\<lparr>chatRole = User, chatText = str ''hi''\<rparr>, \<lparr>chatRole = Model, chatText = str ''yo''\<rparr>] \<and>
   tokenUsage (fst (onmessage sid turnCompleteMsg 1 midTurn)) = 2 \<and>
   tokenUsage (fst (onmessage sid interruptedMsg 1 midTurn)) = 0"
proof -
  have i: "currentSessionIdRef midTurn = sid" by (simp add: midTurn_eval)
  have t: "truthy_str (trim (currentInputRef midTurn))"
    by (simp add: midTurn_eval nonblank_hi)
  have a: "onmessage sid interruptedMsg 1 midTurn = (handleInterrupted 1 midTurn, False)"
    unfolding interruptedMsg_def using i by (rule on_interrupted)
  have b: "onmessage sid turnCompleteMsg 1 midTurn = (handleTurnComplete midTurn, False)"
    unfolding turnCompleteMsg_def using i by (rule on_turnComplete)
  have n: "newTokens (str ''hi'') (str ''yo'') = 2"
    by (simp add: newTokens_div str_def)
  note hi = handleInterrupted_effect [of 1 midTurn]
  note ht = handleTurnComplete_effect [of midTurn]
  have 1: "sourcesRef (handleInterrupted 1 midTurn) = []"
    and 2: "stopped (handleInterrupted 1 midTurn) = stopped midTurn @ sourcesRef midTurn"
    and 3: "nextStartTimeRef (handleInterrupted 1 midTurn) =
             (case outputAudioContextRef midTurn of None \<Rightarrow> 0 | Some c \<Rightarrow> 1)"
    and 4: "tokenUsage (handleInterrupted 1 midTurn) = tokenUsage midTurn"
    using hi by blast+
  have 5: "transcripts (handleInterrupted 1 midTurn) =
        transcripts midTurn @ [\<lparr>chatRole = User, chatText = currentInputRef midTurn\<rparr>,
                         \<lparr>chatRole = Model,
                          chatText = currentOutputRef midTurn @ str '' (interrupted)''\<rparr>]"
    and 6: "fullTranscriptRef (handleInterrupted 1 midTurn) =
        fullTranscriptRef midTurn @ str ''Candidate: '' @ currentInputRef midTurn
        @ str ''\<newline>Interviewer: '' @ currentOutputRef midTurn
        @ str '' (interrupted)\<newline>''"
    using hi t by blast+
  have 7: "transcripts (handleTurnComplete midTurn) =
        transcripts midTurn @ [\<lparr>chatRole = User, chatText = currentInputRef midTurn\<rparr>,
                         \<lparr>chatRole = Model, chatText = currentOutputRef midTurn\<rparr>]"
    and 8: "tokenUsage (handleTurnComplete midTurn) =
        tokenUsage midTurn + newTokens (currentInputRef midTurn) (currentOutputRef midTurn)"
    using ht t by blast+
  have m: "stopped midTurn = []" "outputAudioContextRef midTurn = Some Running"
    "tokenUsage midTurn = 0" "transcripts midTurn = []" "fullTranscriptRef midTurn = []"
    "currentInputRef midTurn = str ''hi''" "currentOutputRef midTurn = str ''yo''"
    "sourcesRef midTurn \<noteq> []"
    by (simp_all add: midTurn_eval)
  show ?thesis
    unfolding a b fst_conv 1 2 3 4 5 6 7 8 m(1-7) i n
    using m(8) by (simp add: str_def)
qed


section \<open>Transcript analysis\<close>

text \<open>
  The handler by cases: the short transcript, the remote call that fails, and the response
  that is parsed. Stopping the media changes neither the transcript nor the feedback.
\<close>

lemma finalTranscript_beginAnalysis: "finalTranscript (beginAnalysis s) = finalTranscript s"
  by (simp add: finalTranscript_def beginAnalysis_def stopAllMedia_def)

lemma feedback_beginAnalysis: "feedback (beginAnalysis s) = feedback s"
  by (simp add: beginAnalysis_def stopAllMedia_def)

lemma short_iff: "(\<not> truthy_str t \<or> length t < 10) \<longleftrightarrow> length t < 10"
  by (auto simp: truthy_str_def)

lemma handleEndInterview_short:
  "length (finalTranscript s) < 10 \<Longrightarrow>
   handleEndInterview env s =
     Inr (publish env (emptyData (gestureResults env)) (beginAnalysis s), [Wait 2000])"
  by (simp add: handleEndInterview_def Let_def finalTranscript_beginAnalysis short_iff)

lemma handleEndInterview_long:
  "10 \<le> length (finalTranscript s) \<Longrightarrow>
   handleEndInterview env s =
     (case remoteAnalysis env of
        Inl e \<Rightarrow>
          Inr (publish env (emergencyData (gestureResults env)) (beginAnalysis s),
               if apiKey env then [GenerateContent (analysisPrompt (finalTranscript s))] else [])
      | Inr fd \<Rightarrow>
          Inr (publish env fd (beginAnalysis s),
               [GenerateContent (analysisPrompt (finalTranscript s))]))"
proof -
  assume l: "10 \<le> length (finalTranscript s)"
  then have "finalTranscript s \<noteq> []" by auto
  with l have "\<not> (\<not> truthy_str (finalTranscript s) \<or> length (finalTranscript s) < 10)"
    by (simp add: truthy_str_def)
  then show ?thesis
    by (simp add: handleEndInterview_def Let_def finalTranscript_beginAnalysis
        try_catch_def split: sum.splits)
qed

lemma parseFeedback_cases:
  "parseFeedback jsonText g =
     (case sanitizeAndParseJSON jsonText of
        Inl e \<Rightarrow> Inr (invalidFormatData g)
      | Inr parsed \<Rightarrow>
          if nullish parsed then Inr (invalidFormatData g) else fromParsed parsed g)"
  by (simp add: parseFeedback_def try_catch_def fromParsed_def split: sum.splits)

lemma parseFeedback_total: "\<exists>fd. parseFeedback jsonText g = Inr fd \<and> gestureMetrics fd = g"
  by (simp add: parseFeedback_cases fromParsed_def invalidFormatData_def split: sum.splits)

lemma publish_effect:
  "(observedState env = ANALYZING \<longrightarrow>
      feedback (publish env fd s) = Some fd \<and> state (publish env fd s) = FEEDBACK) \<and>
   (observedState env \<noteq> ANALYZING \<longrightarrow> publish env fd s = s)"
  by (simp add: publish_def)

lemma remoteAnalysis_cases:
  "remoteAnalysis env =
     (if \<not> apiKey env \<or> remoteOutcome env = Rejected
      then (if apiKey env then Inl RemoteFailure else Inl (Error (str ''API Key missing'')))
      else (case remoteOutcome env of
              Responded t \<Rightarrow> parseFeedback (responseText t) (gestureResults env)
            | Rejected \<Rightarrow> Inl RemoteFailure))"
  by (simp add: remoteAnalysis_def split: remote_outcome.splits)

text \<open>What the handler publishes, by case.\<close>

lemma handleEndInterview_result:
  "\<exists>fd es.
     handleEndInterview env s = Inr (publish env fd (beginAnalysis s), es) \<and>
     gestureMetrics fd = gestureResults env \<and>
     (length (finalTranscript s) < 10 \<longrightarrow>
        fd = emptyData (gestureResults env) \<and> es = [Wait 2000]) \<and>
     (10 \<le> length (finalTranscript s) \<and> (\<not> apiKey env \<or> remoteOutcome env = Rejected) \<longrightarrow>
        fd = emergencyData (gestureResults env)) \<and>
     (\<forall>t. 10 \<le> length (finalTranscript s) \<and> apiKey env \<and> remoteOutcome env = Responded t \<longrightarrow>
        parseFeedback (responseText t) (gestureResults env) = Inr fd \<and>
        es = [GenerateContent (analysisPrompt (finalTranscript s))])"
proof (cases "length (finalTranscript s) < 10")
  case True
  then show ?thesis
    by (simp add: handleEndInterview_short emptyData_def)
next
  case False
  then have l: "10 \<le> length (finalTranscript s)" by simp
  show ?thesis
  proof (cases "\<not> apiKey env \<or> remoteOutcome env = Rejected")
    case True
    then have "\<exists>e. remoteAnalysis env = Inl e" by (auto simp: remoteAnalysis_def)
    then obtain e where "remoteAnalysis env = Inl e" ..
    with l True False show ?thesis
      by (auto simp: handleEndInterview_long emergencyData_def)
  next
    case ok: False
    then obtain t where t: "remoteOutcome env = Responded t" and k: "apiKey env"
      by (cases "remoteOutcome env") auto
    obtain fd where fd: "parseFeedback (responseText t) (gestureResults env) = Inr fd"
      and g: "gestureMetrics fd = gestureResults env"
      using parseFeedback_total by blast
    from t k fd have "remoteAnalysis env = Inr fd" by (simp add: remoteAnalysis_def)
    with l False ok t k fd g show ?thesis
      by (auto simp: handleEndInterview_long)
  qed
qed

lemma finalTranscript_long:
  "currentInputRef s \<noteq> [] \<or> currentOutputRef s \<noteq> [] \<Longrightarrow> 10 \<le> length (finalTranscript s)"
  by (auto simp: finalTranscript_def truthy_str_def str_def)

text \<open>The recovery scenario and the other example payloads, evaluated step by step.\<close>

lemmas json_eval_defs =
  JSON_parse_def json_ws_def is_digit_def json_number_def frac_part_def exp_part_def
  starts_with_def mk_number_def digits_val_def parse_step_def value_start_def key_start_def
  close_array_def close_object_def deliver_def Let_def

text \<open>
  The grammar at work: trailing commas, leading zeros, juxtaposed values and trailing text
  are refused; literals, numbers, escapes and the empty object are read; of two members
  with the same key the later one is the one a property read finds.
\<close>

lemma JSON_parse_examples:
  \<open>JSON_parse [] = Inl SyntaxError\<close>
  \<open>JSON_parse (str ''[1,]'') = Inl SyntaxError\<close>
  \<open>JSON_parse (str ''01'') = Inl SyntaxError\<close>
  \<open>JSON_parse (str ''[1 2]'') = Inl SyntaxError\<close>
  \<open>JSON_parse (str ''{} x'') = Inl SyntaxError\<close>
  \<open>JSON_parse (str '' [true, false, null, -2.5e1, 0.25] '')
     = Inr (JArr [JBool True, JBool False, JNull, JNum (- 25), JNum 0.25])\<close>
  \<open>JSON_parse (str ''"a'' @ [92, 110] @ str ''b'' @ [92, 117] @ str ''00e9"'')
     = Inr (JStr [97, 10, 98, 233])\<close>
  \<open>JSON_parse (str ''{}'') = Inr (JObj [])\<close>
  by (simp_all add: str_def json_eval_defs hex4_def hexval_def unescape_def)

lemma duplicate_key_last_wins:
  \<open>JSON_parse (str ''{"a":1,"a":2}'') = Inr (JObj [(str ''a'', JNum 1), (str ''a'', JNum 2)])\<close>
  \<open>get (JObj [(str ''a'', JNum 1), (str ''a'', JNum 2)]) (str ''a'') = JNum 2\<close>
  by (simp_all add: str_def json_eval_defs get_def)

lemma scenario_fences:
  "strip_all (str ''```'') (strip_all (str ''```json'') scenarioPayload)
     = str ''\<newline>'' @ scenarioSlice @ str ''\<newline>''"
  by (simp add: scenarioPayload_def scenarioSlice_def str_def)

lemma scenario_first: "indexOf (str ''\<newline>'' @ scenarioSlice @ str ''\<newline>'') 123 = 1"
  by (simp add: scenarioSlice_def str_def indexOf_def)

lemma scenario_last: "lastIndexOf (str ''\<newline>'' @ scenarioSlice @ str ''\<newline>'') 125 = 105"
  by (simp add: scenarioSlice_def str_def lastIndexOf_def)

lemma scenario_substring:
  "substring (str ''\<newline>'' @ scenarioSlice @ str ''\<newline>'') 1 (105 + 1) = scenarioSlice"
  by (simp add: scenarioSlice_def str_def substring_def)

lemma scenario_strict: "JSON_parse scenarioSlice = Inl SyntaxError"
  by (simp add: scenarioSlice_def str_def json_eval_defs)

lemma scenario_commas:
  "strip_comma_before 93 (strip_comma_before 125 scenarioSlice) = scenarioNormalized"
  by (simp add: scenarioSlice_def scenarioNormalized_def str_def is_ws_def starts_with_def)

lemma scenario_retry: "JSON_parse scenarioNormalized = Inr scenarioParsed"
  by (simp add: scenarioNormalized_def scenarioParsed_def str_def json_eval_defs)

lemma scenario_sanitize: "sanitizeAndParseJSON scenarioPayload = Inr scenarioParsed"
  unfolding sanitizeAndParseJSON_def Let_def scenario_fences scenario_first scenario_last
    scenario_substring
  by (simp add: scenario_strict scenario_commas scenario_retry)

lemma scenario_fromParsed:
  "fromParsed scenarioParsed g =
     Inr \<lparr>score = 82,
          summary = JStr (str ''Solid.''),
          strengths = [JStr (str ''Clear'')],
          improvements = [JStr (str ''Depth'')],
          metrics = \<lparr>technical = JNum 7, communication = JNum 0, confidence = JNum 0,
                     clarity = JNum 0, problemSolving = JNum 0\<rparr>,
          gestureMetrics = g\<rparr>"
  by (simp add: fromParsed_def scenarioParsed_def nullish_def get_def opt_get_def or_else_def
      truthy_def str_def)

lemma scenario_parseFeedback: "parseFeedback scenarioPayload g = Inr (scenarioReport g)"
  by (simp add: parseFeedback_cases scenario_sanitize scenario_fromParsed scenarioReport_def)
     (simp add: nullish_def scenarioParsed_def)

lemma cacheSession_eval:
  "cacheSession =
     \<lparr>state = ACTIVE, currentSessionIdRef = sid, nextStartTimeRef = 0,
      sourcesRef = [\<lparr>nodeId = 0, startAt = 0, bufDuration = 1 / 16000\<rparr>,
                    \<lparr>nodeId = 1, startAt = 0, bufDuration = 1 / 24000\<rparr>],
      stopped = [], nextNodeId = 2, currentInputRef = [], currentOutputRef = [],
      fullTranscriptRef = str ''Candidate: I built a cache.\<newline>Interviewer: Good job.\<newline>'',
      transcripts = [\<lparr>chatRole = User, chatText = str ''I built a cache.''\<rparr>,
                     \<lparr>chatRole = Model, chatText = str ''Good job.''\<rparr>],
      currentInputTrans = [], currentOutputTrans = [], tokenUsage = 8,
      outputAudioContextRef = Some Running, feedback = None\<rparr>"
proof -
  have nb: "truthy_str (trim (str ''I built a cache.''))"
    by (simp add: truthy_str_def trim_def str_def is_ws_def)
  have n: "newTokens (str ''I built a cache.'') (str ''Good job.'') = 8"
    by (simp add: newTokens_div str_def)
  have ne: "truthy_str (str ''Good job.'')" "truthy_str (str ''I built a cache.'')"
    by (simp_all add: truthy_str_def str_def)
  show ?thesis
    by (simp add: cacheSession_def activeSession_eval onmessage_def cacheTurnMsg_def
        handleOutputText_def handleInputText_def handleTurnComplete_def Let_def nb n ne)
       (simp add: str_def)
qed

lemma cacheSession_transcript:
  "finalTranscript cacheSession
     = str ''Candidate: I built a cache.\<newline>Interviewer: Good job.\<newline>''"
  by (simp add: cacheSession_eval finalTranscript_def truthy_str_def)

lemma cacheSession_long: "10 \<le> length (finalTranscript cacheSession)"
  by (simp add: cacheSession_transcript str_def)

lemma activeSession_short: "length (finalTranscript activeSession) < 10"
  by (simp add: activeSession_eval finalTranscript_def truthy_str_def)

lemma prose_sanitize:
  "sanitizeAndParseJSON prose = Inl (Error (str ''No JSON object found in response''))"
proof -
  have "strip_all (str ''```'') (strip_all (str ''```json'') prose) = prose"
    by (simp add: prose_def str_def)
  moreover have "indexOf prose 123 = - 1"
    by (simp add: prose_def str_def indexOf_def)
  ultimately show ?thesis by (simp add: sanitizeAndParseJSON_def Let_def)
qed

lemma normalized_sanitize: "sanitizeAndParseJSON scenarioNormalized = Inr scenarioParsed"
proof -
  have a: "strip_all (str ''```'') (strip_all (str ''```json'') scenarioNormalized)
             = scenarioNormalized"
    by (simp add: scenarioNormalized_def str_def)
  have b: "indexOf scenarioNormalized 123 = 0"
    by (simp add: scenarioNormalized_def str_def indexOf_def)
  have c: "lastIndexOf scenarioNormalized 125 = 103"
    by (simp add: scenarioNormalized_def str_def lastIndexOf_def)
  have d: "substring scenarioNormalized 0 (103 + 1) = scenarioNormalized"
    by (simp add: scenarioNormalized_def str_def substring_def)
  show ?thesis
    unfolding sanitizeAndParseJSON_def Let_def a b c d
    by (simp add: scenario_retry)
qed

lemma endEnvOf_simps:
  "gestureResults (endEnvOf r st) = None" "apiKey (endEnvOf r st)"
  "remoteOutcome (endEnvOf r st) = r" "observedState (endEnvOf r st) = st"
  by (simp_all add: endEnvOf_def)

lemma responseText_Some: "t \<noteq> [] \<Longrightarrow> responseText (Some t) = t"
  by (simp add: responseText_def truthy_str_def)

lemma scenario_nonempty: "scenarioPayload \<noteq> []" "scenarioNormalized \<noteq> []" "prose \<noteq> []"
  by (simp_all add: scenarioPayload_def scenarioNormalized_def prose_def str_def)

lemma scenarioParsed_not_nullish: "\<not> nullish scenarioParsed"
  by (simp add: nullish_def scenarioParsed_def)

text \<open>
  C7 (as the code has it). For every transcript, every outcome of the remote call and
  every payload, the handler propagates no exception. It publishes its report, and moves to
  \<^verbatim>\<open>FEEDBACK\<close>, only if \<^verbatim>\<open>stateRef.current\<close> is still \<^verbatim>\<open>ANALYZING\<close> when it reaches its check;
  otherwise the feedback stays as it was. The report is the fixed no-conversation report
  for a transcript of fewer than 10 code units, the fixed network-error report when the
  credential is missing or the remote call fails, the fixed invalid-format report when the
  recovery parse throws or yields \<^verbatim>\<open>null\<close>, and otherwise the report built field by field
  from the parsed payload: a numeric score, strengths and improvements that are arrays,
  the summary and the five sub-metrics with their defaults.
\<close>

theorem analysis_fails_soft:
  "\<exists>s' es fd.
     handleEndInterview env s = Inr (s', es) \<and>
     (observedState env = ANALYZING \<longrightarrow> feedback s' = Some fd \<and> state s' = FEEDBACK) \<and>
     (observedState env \<noteq> ANALYZING \<longrightarrow> feedback s' = feedback s) \<and>
     gestureMetrics fd = gestureResults env \<and>
     (length (finalTranscript s) < 10 \<longrightarrow> fd = emptyData (gestureResults env)) \<and>
     (10 \<le> length (finalTranscript s) \<and> (\<not> apiKey env \<or> remoteOutcome env = Rejected) \<longrightarrow>
        fd = emergencyData (gestureResults env)) \<and>
     (\<forall>t. 10 \<le> length (finalTranscript s) \<and> apiKey env \<and> remoteOutcome env = Responded t \<longrightarrow>
        (\<forall>e. sanitizeAndParseJSON (responseText t) = Inl e \<longrightarrow>
           fd = invalidFormatData (gestureResults env)) \<and>
        (sanitizeAndParseJSON (responseText t) = Inr JNull \<longrightarrow>
           fd = invalidFormatData (gestureResults env)) \<and>
        (\<forall>parsed. sanitizeAndParseJSON (responseText t) = Inr parsed \<and> \<not> nullish parsed \<longrightarrow>
           fromParsed parsed (gestureResults env) = Inr fd \<and>
           score fd = (case get parsed (str ''score'') of JNum x \<Rightarrow> x | _ \<Rightarrow> 0) \<and>
           strengths fd =
             (case get parsed (str ''strengths'') of
                JArr xs \<Rightarrow> xs
              | _ \<Rightarrow> [JStr (str ''No specific strengths detected'')]) \<and>
           improvements fd =
             (case get parsed (str ''improvements'') of
                JArr xs \<Rightarrow> xs
              | _ \<Rightarrow> [JStr (str ''No specific improvements detected'')])))"
proof -
  obtain fd es where h: "handleEndInterview env s = Inr (publish env fd (beginAnalysis s), es)"
    and g: "gestureMetrics fd = gestureResults env"
    and short: "length (finalTranscript s) < 10 \<longrightarrow>
        fd = emptyData (gestureResults env) \<and> es = [Wait 2000]"
    and fail: "10 \<le> length (finalTranscript s) \<and> (\<not> apiKey env \<or> remoteOutcome env = Rejected) \<longrightarrow>
        fd = emergencyData (gestureResults env)"
    and resp: "\<forall>t. 10 \<le> length (finalTranscript s) \<and> apiKey env \<and> remoteOutcome env = Responded t \<longrightarrow>
        parseFeedback (responseText t) (gestureResults env) = Inr fd \<and>
        es = [GenerateContent (analysisPrompt (finalTranscript s))]"
    using handleEndInterview_result [of env s] by blast
  have p1: "observedState env = ANALYZING \<longrightarrow>
      feedback (publish env fd (beginAnalysis s)) = Some fd \<and>
      state (publish env fd (beginAnalysis s)) = FEEDBACK"
    by (simp add: publish_def)
  have p2: "observedState env \<noteq> ANALYZING \<longrightarrow>
      feedback (publish env fd (beginAnalysis s)) = feedback s"
    by (simp add: publish_def feedback_beginAnalysis)
  have r: "\<forall>t. 10 \<le> length (finalTranscript s) \<and> apiKey env \<and> remoteOutcome env = Responded t \<longrightarrow>
        (\<forall>e. sanitizeAndParseJSON (responseText t) = Inl e \<longrightarrow>
           fd = invalidFormatData (gestureResults env)) \<and>
        (sanitizeAndParseJSON (responseText t) = Inr JNull \<longrightarrow>
           fd = invalidFormatData (gestureResults env)) \<and>
        (\<forall>parsed. sanitizeAndParseJSON (responseText t) = Inr parsed \<and> \<not> nullish parsed \<longrightarrow>
           fromParsed parsed (gestureResults env) = Inr fd \<and>
           score fd = (case get parsed (str ''score'') of JNum x \<Rightarrow> x | _ \<Rightarrow> 0) \<and>
           strengths fd =
             (case get parsed (str ''strengths'') of
                JArr xs \<Rightarrow> xs
              | _ \<Rightarrow> [JStr (str ''No specific strengths detected'')]) \<and>
           improvements fd =
             (case get parsed (str ''improvements'') of
                JArr xs \<Rightarrow> xs
              | _ \<Rightarrow> [JStr (str ''No specific improvements detected'')]))"
  proof (intro allI impI)
    fix t
    assume a: "10 \<le> length (finalTranscript s) \<and> apiKey env \<and> remoteOutcome env = Responded t"
    with resp have pf: "parseFeedback (responseText t) (gestureResults env) = Inr fd" by blast
    show "(\<forall>e. sanitizeAndParseJSON (responseText t) = Inl e \<longrightarrow>
           fd = invalidFormatData (gestureResults env)) \<and>
        (sanitizeAndParseJSON (responseText t) = Inr JNull \<longrightarrow>
           fd = invalidFormatData (gestureResults env)) \<and>
        (\<forall>parsed. sanitizeAndParseJSON (responseText t) = Inr parsed \<and> \<not> nullish parsed \<longrightarrow>
           fromParsed parsed (gestureResults env) = Inr fd \<and>
           score fd = (case get parsed (str ''score'') of JNum x \<Rightarrow> x | _ \<Rightarrow> 0) \<and>
           strengths fd =
             (case get parsed (str ''strengths'') of
                JArr xs \<Rightarrow> xs
              | _ \<Rightarrow> [JStr (str ''No specific strengths detected'')]) \<and>
           improvements fd =
             (case get parsed (str ''improvements'') of
                JArr xs \<Rightarrow> xs
              | _ \<Rightarrow> [JStr (str ''No specific improvements detected'')]))"
      using pf by (auto simp: parseFeedback_cases nullish_def fromParsed_def)
  qed
  from h g short fail r p1 p2 show ?thesis by blast
qed


theorem analysis_fails_soft_witness:
  "(\<exists>s' es. handleEndInterview (endEnvOf (Responded (Some prose)) ANALYZING) cacheSession
              = Inr (s', es) \<and>
            feedback s' = Some (invalidFormatData None) \<and> state s' = FEEDBACK) \<and>
   (\<exists>s' es. handleEndInterview (endEnvOf (Responded (Some scenarioPayload)) ANALYZING)
              cacheSession = Inr (s', es) \<and>
            feedback s' = Some (scenarioReport None) \<and> state s' = FEEDBACK) \<and>
   (\<exists>s' es. handleEndInterview (endEnvOf (Responded (Some scenarioNormalized)) ANALYZING)
              cacheSession = Inr (s', es) \<and>
            feedback s' = Some (scenarioReport None) \<and> state s' = FEEDBACK) \<and>
   (\<exists>s' es. handleEndInterview (endEnvOf Rejected ANALYZING) cacheSession = Inr (s', es) \<and>
            feedback s' = Some (emergencyData None) \<and> state s' = FEEDBACK) \<and>
   (\<exists>s' es. handleEndInterview (endEnvOf Rejected ANALYZING) activeSession = Inr (s', es) \<and>
            feedback s' = Some (emptyData None) \<and> state s' = FEEDBACK)"
proof -
  note l = cacheSession_long
  obtain s1 es1 fd1 where
    h1: "handleEndInterview (endEnvOf (Responded (Some prose)) ANALYZING) cacheSession
           = Inr (s1, es1)"
    and f1: "feedback s1 = Some fd1 \<and> state s1 = FEEDBACK"
    and r1: "\<forall>e. sanitizeAndParseJSON (responseText (Some prose)) = Inl e \<longrightarrow>
               fd1 = invalidFormatData None"
    using analysis_fails_soft [of "endEnvOf (Responded (Some prose)) ANALYZING" cacheSession] l
    by (auto simp: endEnvOf_simps)
  from r1 have v1: "fd1 = invalidFormatData None"
    by (simp add: responseText_Some scenario_nonempty prose_sanitize)
  obtain s2 es2 fd2 where
    h2: "handleEndInterview (endEnvOf (Responded (Some scenarioPayload)) ANALYZING)
           cacheSession = Inr (s2, es2)"
    and f2: "feedback s2 = Some fd2 \<and> state s2 = FEEDBACK"
    and r2: "\<forall>parsed. sanitizeAndParseJSON (responseText (Some scenarioPayload)) = Inr parsed
               \<and> \<not> nullish parsed \<longrightarrow> fromParsed parsed None = Inr fd2"
    using analysis_fails_soft
      [of "endEnvOf (Responded (Some scenarioPayload)) ANALYZING" cacheSession] l
    by (auto simp: endEnvOf_simps)
  from r2 have v2: "fd2 = scenarioReport None"
    by (simp add: responseText_Some scenario_nonempty scenario_sanitize
        scenarioParsed_not_nullish scenario_fromParsed scenarioReport_def)
  obtain s3 es3 fd3 where
    h3: "handleEndInterview (endEnvOf (Responded (Some scenarioNormalized)) ANALYZING)
           cacheSession = Inr (s3, es3)"
    and f3: "feedback s3 = Some fd3 \<and> state s3 = FEEDBACK"
    and r3: "\<forall>parsed. sanitizeAndParseJSON (responseText (Some scenarioNormalized)) = Inr parsed
               \<and> \<not> nullish parsed \<longrightarrow> fromParsed parsed None = Inr fd3"
    using analysis_fails_soft
      [of "endEnvOf (Responded (Some scenarioNormalized)) ANALYZING" cacheSession] l
    by (auto simp: endEnvOf_simps)
  from r3 have v3: "fd3 = scenarioReport None"
    by (simp add: responseText_Some scenario_nonempty normalized_sanitize
        scenarioParsed_not_nullish scenario_fromParsed scenarioReport_def)
  obtain s4 es4 fd4 where
    h4: "handleEndInterview (endEnvOf Rejected ANALYZING) cacheSession = Inr (s4, es4)"
    and f4: "feedback s4 = Some fd4 \<and> state s4 = FEEDBACK"
    and r4: "fd4 = emergencyData None"
    using analysis_fails_soft [of "endEnvOf Rejected ANALYZING" cacheSession] l
    by (auto simp: endEnvOf_simps)
  obtain s5 es5 fd5 where
    h5: "handleEndInterview (endEnvOf Rejected ANALYZING) activeSession = Inr (s5, es5)"
    and f5: "feedback s5 = Some fd5 \<and> state s5 = FEEDBACK"
    and r5: "fd5 = emptyData None"
    using analysis_fails_soft [of "endEnvOf Rejected ANALYZING" activeSession]
      activeSession_short
    by (auto simp: endEnvOf_simps)
  from h1 f1 v1 h2 f2 v2 h3 f3 v3 h4 f4 r4 h5 f5 r5 show ?thesis by blast
qed



text \<open>
  C7 as stated fails: when the state has left \<^verbatim>\<open>ANALYZING\<close> before the remote call returns
  (the user reset meanwhile), the handler publishes no report, although transcript and
  payload are fine.
\<close>

theorem analysis_dropped_when_state_moved:
  "10 \<le> length (finalTranscript cacheSession) \<and>
   feedback cacheSession = None \<and>
   (\<exists>s' es. handleEndInterview (endEnvOf (Responded (Some scenarioNormalized)) IDLE)
              cacheSession = Inr (s', es) \<and>
            feedback s' = None)"
proof -
  obtain fd es where
    "handleEndInterview (endEnvOf (Responded (Some scenarioNormalized)) IDLE) cacheSession
       = Inr (publish (endEnvOf (Responded (Some scenarioNormalized)) IDLE) fd
               (beginAnalysis cacheSession), es)"
    using handleEndInterview_result by blast
  moreover have "feedback (publish (endEnvOf (Responded (Some scenarioNormalized)) IDLE) fd
               (beginAnalysis cacheSession)) = None"
    by (simp add: publish_def endEnvOf_simps feedback_beginAnalysis cacheSession_eval)
  moreover have "feedback cacheSession = None" by (simp add: cacheSession_eval)
  ultimately show ?thesis using cacheSession_long by blast
qed


text \<open>
  What the field-by-field construction does not check: a summary that is a number, a list
  element that is not text and a sub-metric that is text are taken over as they are; a
  score that is not a number is replaced by 0.
\<close>

lemma untyped_parse:
  "JSON_parse untypedPayload =
     Inr (JObj [(str ''score'', JStr (str ''9'')),
                (str ''summary'', JNum 5),
                (str ''strengths'', JArr [JNum 1]),
                (str ''metrics'', JObj [(str ''technical'', JStr (str ''high''))])])"
  by (simp add: untypedPayload_def str_def json_eval_defs)

lemma untyped_sanitize:
  "sanitizeAndParseJSON untypedPayload =
     Inr (JObj [(str ''score'', JStr (str ''9'')),
                (str ''summary'', JNum 5),
                (str ''strengths'', JArr [JNum 1]),
                (str ''metrics'', JObj [(str ''technical'', JStr (str ''high''))])])"
proof -
  have a: "strip_all (str ''```'') (strip_all (str ''```json'') untypedPayload)
             = untypedPayload"
    by (simp add: untypedPayload_def str_def)
  have b: "indexOf untypedPayload 123 = 0"
    by (simp add: untypedPayload_def str_def indexOf_def)
  have c: "lastIndexOf untypedPayload 125 = 71"
    by (simp add: untypedPayload_def str_def lastIndexOf_def)
  have d: "substring untypedPayload 0 (71 + 1) = untypedPayload"
    by (simp add: untypedPayload_def str_def substring_def)
  show ?thesis
    unfolding sanitizeAndParseJSON_def Let_def a b c d
    by (simp add: untyped_parse)
qed

lemma unchecked_fields_pass_through:
  "parseFeedback untypedPayload g =
     Inr \<lparr>score = 0,
          summary = JNum 5,
          strengths = [JNum 1],
          improvements = [JStr (str ''No specific improvements detected'')],
          metrics = \<lparr>technical = JStr (str ''high''), communication = JNum 0,
                     confidence = JNum 0, clarity = JNum 0, problemSolving = JNum 0\<rparr>,
          gestureMetrics = g\<rparr>"
  by (simp add: parseFeedback_cases untyped_sanitize fromParsed_def nullish_def get_def
      opt_get_def or_else_def truthy_def)
     (simp add: str_def)

text \<open>
  C8. The payload of the scenario, fenced and with a trailing comma, goes through the
  pipeline as described: the fences are stripped, the text is sliced from the first
  opening to the last closing brace, the strict parse fails, the trailing-comma pass
  removes the comma, the second parse succeeds, and the fields are defaulted one by one.
  The report has score 82, summary \<^verbatim>\<open>Solid.\<close>, strengths \<^verbatim>\<open>["Clear"]\<close>, improvements
  \<^verbatim>\<open>["Depth"]\<close>, technical 7 and every other sub-metric 0; with the transcript of the
  scenario the handler publishes exactly this report.
\<close>

theorem recovery_parse_scenario:
  "strip_all (str ''```'') (strip_all (str ''```json'') scenarioPayload)
     = str ''\<newline>'' @ scenarioSlice @ str ''\<newline>'' \<and>
   indexOf (str ''\<newline>'' @ scenarioSlice @ str ''\<newline>'') 123 = 1 \<and>
   lastIndexOf (str ''\<newline>'' @ scenarioSlice @ str ''\<newline>'') 125 = 105 \<and>
   substring (str ''\<newline>'' @ scenarioSlice @ str ''\<newline>'') 1 (105 + 1) = scenarioSlice \<and>
   JSON_parse scenarioSlice = Inl SyntaxError \<and>
   strip_comma_before 93 (strip_comma_before 125 scenarioSlice) = scenarioNormalized \<and>
   JSON_parse scenarioNormalized = Inr scenarioParsed \<and>
   sanitizeAndParseJSON scenarioPayload = Inr scenarioParsed \<and>
   parseFeedback scenarioPayload g =
     Inr \<lparr>score = 82,
          summary = JStr (str ''Solid.''),
          strengths = [JStr (str ''Clear'')],
          improvements = [JStr (str ''Depth'')],
          metrics = \<lparr>technical = JNum 7, communication = JNum 0, confidence = JNum 0,
                     clarity = JNum 0, problemSolving = JNum 0\<rparr>,
          gestureMetrics = g\<rparr> \<and>
   finalTranscript cacheSession
     = str ''Candidate: I built a cache.\<newline>Interviewer: Good job.\<newline>'' \<and>
   (\<exists>s'. handleEndInterview
            \<lparr>gestureResults = g, apiKey = True,
             remoteOutcome = Responded (Some scenarioPayload), observedState = ANALYZING\<rparr>
            cacheSession
          = Inr (s', [GenerateContent (analysisPrompt (finalTranscript cacheSession))]) \<and>
        state s' = FEEDBACK \<and>
        feedback s' =
          Some \<lparr>score = 82,
                summary = JStr (str ''Solid.''),
                strengths = [JStr (str ''Clear'')],
                improvements = [JStr (str ''Depth'')],
                metrics = \<lparr>technical = JNum 7, communication = JNum 0, confidence = JNum 0,
                           clarity = JNum 0, problemSolving = JNum 0\<rparr>,
                gestureMetrics = g\<rparr>)"
proof -
  have pf: "parseFeedback scenarioPayload g =
     Inr \<lparr>score = 82,
          summary = JStr (str ''Solid.''),
          strengths = [JStr (str ''Clear'')],
          improvements = [JStr (str ''Depth'')],
          metrics = \<lparr>technical = JNum 7, communication = JNum 0, confidence = JNum 0,
                     clarity = JNum 0, problemSolving = JNum 0\<rparr>,
          gestureMetrics = g\<rparr>"
    using scenario_parseFeedback [of g] by (simp add: scenarioReport_def)
  have ra: "remoteAnalysis
            \<lparr>gestureResults = g, apiKey = True,
             remoteOutcome = Responded (Some scenarioPayload), observedState = ANALYZING\<rparr>
          = parseFeedback scenarioPayload g"
    by (simp add: remoteAnalysis_def responseText_Some scenario_nonempty)
  have h: "\<exists>s'. handleEndInterview
            \<lparr>gestureResults = g, apiKey = True,
             remoteOutcome = Responded (Some scenarioPayload), observedState = ANALYZING\<rparr>
            cacheSession
          = Inr (s', [GenerateContent (analysisPrompt (finalTranscript cacheSession))]) \<and>
        state s' = FEEDBACK \<and>
        feedback s' =
          Some \<lparr>score = 82,
                summary = JStr (str ''Solid.''),
                strengths = [JStr (str ''Clear'')],
                improvements = [JStr (str ''Depth'')],
                metrics = \<lparr>technical = JNum 7, communication = JNum 0, confidence = JNum 0,
                           clarity = JNum 0, problemSolving = JNum 0\<rparr>,
                gestureMetrics = g\<rparr>"
    by (simp add: handleEndInterview_long [OF cacheSession_long] ra pf publish_def)
  from scenario_fences scenario_first scenario_last scenario_substring scenario_strict
    scenario_commas scenario_retry scenario_sanitize pf cacheSession_transcript h
  show ?thesis by blast
qed

theorem recovery_parse_scenario_witness:
  "parseFeedback scenarioPayload None =
     Inr \<lparr>score = 82,
          summary = JStr (str ''Solid.''),
          strengths = [JStr (str ''Clear'')],
          improvements = [JStr (str ''Depth'')],
          metrics = \<lparr>technical = JNum 7, communication = JNum 0, confidence = JNum 0,
                     clarity = JNum 0, problemSolving = JNum 0\<rparr>,
          gestureMetrics = None\<rparr> \<and>
   JSON_parse scenarioSlice = Inl SyntaxError \<and>
   JSON_parse scenarioNormalized = Inr scenarioParsed"
  using recovery_parse_scenario [of None] by blast

text \<open>
  C9 (as the code has it). When the final transcript has fewer than 10 code units the
  handler makes no remote call: its only effect is the wait of 2000 ms. After the wait it
  publishes the fixed no-conversation report (score 0, placeholder strengths and
  improvements, all sub-metrics 0) if \<^verbatim>\<open>stateRef.current\<close> is still \<^verbatim>\<open>ANALYZING\<close>, and
  nothing otherwise.
\<close>

theorem short_transcript_shortcut:
  "(length (finalTranscript s) < 10 \<longrightarrow>
      (\<exists>s'. handleEndInterview env s = Inr (s', [Wait 2000]) \<and>
            (observedState env = ANALYZING \<longrightarrow>
               feedback s' = Some (emptyData (gestureResults env)) \<and> state s' = FEEDBACK) \<and>
            (observedState env \<noteq> ANALYZING \<longrightarrow> feedback s' = feedback s))) \<and>
   score (emptyData g) = 0 \<and>
   summary (emptyData g) = JStr (str
     ''No meaningful conversation was recorded. Please check microphone settings.'') \<and>
   strengths (emptyData g) = [JStr (str ''N/A'')] \<and>
   improvements (emptyData g) =
     [JStr (str ''Ensure microphone is enabled''), JStr (str ''Check network connection'')] \<and>
   metrics (emptyData g) =
     \<lparr>technical = JNum 0, communication = JNum 0, confidence = JNum 0, clarity = JNum 0,
      problemSolving = JNum 0\<rparr> \<and>
   gestureMetrics (emptyData g) = g"
  by (simp add: handleEndInterview_short publish_def feedback_beginAnalysis emptyData_def
      emptyMetrics_def)

theorem short_transcript_shortcut_witness:
  "length (finalTranscript activeSession) < 10 \<and>
   (\<exists>s'. handleEndInterview (endEnvOf (Responded (Some scenarioNormalized)) ANALYZING)
            activeSession = Inr (s', [Wait 2000]) \<and>
         feedback s' = Some (emptyData None) \<and> state s' = FEEDBACK)"
  using short_transcript_shortcut
    [of activeSession "endEnvOf (Responded (Some scenarioNormalized)) ANALYZING"]
    activeSession_short
  by (simp add: endEnvOf_simps)

text \<open>
  C9 as stated fails: when the state has left \<^verbatim>\<open>ANALYZING\<close> during the wait, no report is
  published.
\<close>

theorem short_report_dropped_when_state_moved:
  "length (finalTranscript activeSession) < 10 \<and>
   feedback activeSession = None \<and>
   (\<exists>s'. handleEndInterview (endEnvOf Rejected IDLE) activeSession = Inr (s', [Wait 2000]) \<and>
         feedback s' = None)"
  by (simp add: handleEndInterview_short [OF activeSession_short] activeSession_short
      publish_def endEnvOf_simps feedback_beginAnalysis)
     (simp add: activeSession_eval)

text \<open>
  C10. The final transcript is the committed transcript followed, for each accumulator
  that is not empty, by a line labelled \<^verbatim>\<open>Candidate (Final):\<close> or
  \<^verbatim>\<open>Interviewer (Final):\<close> with the accumulator's text. Such a transcript is never short,
  and it is this transcript that the prompt of the remote call ends with.
\<close>

theorem final_transcript_includes_partials:
  "finalTranscript s =
     fullTranscriptRef s
     @ (if currentInputRef s \<noteq> [] then str ''\<newline>Candidate (Final): '' @ currentInputRef s
        else [])
     @ (if currentOutputRef s \<noteq> []
        then str ''\<newline>Interviewer (Final): '' @ currentOutputRef s else []) \<and>
   (currentInputRef s \<noteq> [] \<or> currentOutputRef s \<noteq> [] \<longrightarrow>
      10 \<le> length (finalTranscript s)) \<and>
   (10 \<le> length (finalTranscript s) \<and> apiKey env \<longrightarrow>
      (\<exists>s'. handleEndInterview env s =
              Inr (s', [GenerateContent
                          (FEEDBACK_GENERATION_PROMPT
                           @ str ''\<newline>\<newline>TRANSCRIPT:\<newline>'' @ finalTranscript s)])))"
proof -
  have a: "finalTranscript s =
     fullTranscriptRef s
     @ (if currentInputRef s \<noteq> [] then str ''\<newline>Candidate (Final): '' @ currentInputRef s
        else [])
     @ (if currentOutputRef s \<noteq> []
        then str ''\<newline>Interviewer (Final): '' @ currentOutputRef s else [])"
    by (simp add: finalTranscript_def truthy_str_def)
  have c: "10 \<le> length (finalTranscript s) \<and> apiKey env \<longrightarrow>
      (\<exists>s'. handleEndInterview env s =
              Inr (s', [GenerateContent
                          (FEEDBACK_GENERATION_PROMPT
                           @ str ''\<newline>\<newline>TRANSCRIPT:\<newline>'' @ finalTranscript s)]))"
    by (auto simp: handleEndInterview_long analysisPrompt_def split: sum.splits)
  from a c finalTranscript_long [of s] show ?thesis by blast
qed

theorem final_transcript_includes_partials_witness:
  "currentInputRef midTurn \<noteq> [] \<and>
   finalTranscript midTurn
     = str ''\<newline>Candidate (Final): hi\<newline>Interviewer (Final): yo'' \<and>
   10 \<le> length (finalTranscript midTurn) \<and>
   (\<exists>s'. handleEndInterview (endEnvOf Rejected ANALYZING) midTurn =
           Inr (s', [GenerateContent
                       (FEEDBACK_GENERATION_PROMPT
                        @ str ''\<newline>\<newline>TRANSCRIPT:\<newline>''
                        @ str ''\<newline>Candidate (Final): hi\<newline>Interviewer (Final): yo'')]))"
proof -
  note t = final_transcript_includes_partials [of midTurn "endEnvOf Rejected ANALYZING"]
  have i: "currentInputRef midTurn \<noteq> []" by (simp add: midTurn_eval str_def)
  from t have f: "finalTranscript midTurn
     = str ''\<newline>Candidate (Final): hi\<newline>Interviewer (Final): yo''"
    by (simp add: midTurn_eval) (simp add: str_def)
  from t i have l: "10 \<le> length (finalTranscript midTurn)" by blast
  from t have "10 \<le> length (finalTranscript midTurn) \<and> apiKey (endEnvOf Rejected ANALYZING) \<longrightarrow>
      (\<exists>s'. handleEndInterview (endEnvOf Rejected ANALYZING) midTurn =
           Inr (s', [GenerateContent
                       (FEEDBACK_GENERATION_PROMPT
                        @ str ''\<newline>\<newline>TRANSCRIPT:\<newline>'' @ finalTranscript midTurn)]))"
    by blast
  with l have "\<exists>s'. handleEndInterview (endEnvOf Rejected ANALYZING) midTurn =
           Inr (s', [GenerateContent
                       (FEEDBACK_GENERATION_PROMPT
                        @ str ''\<newline>\<newline>TRANSCRIPT:\<newline>'' @ finalTranscript midTurn)])"
    by (simp add: endEnvOf_simps)
  then have "\<exists>s'. handleEndInterview (endEnvOf Rejected ANALYZING) midTurn =
           Inr (s', [GenerateContent
                       (FEEDBACK_GENERATION_PROMPT
                        @ str ''\<newline>\<newline>TRANSCRIPT:\<newline>''
                        @ str ''\<newline>Candidate (Final): hi\<newline>Interviewer (Final): yo'')])"
    by (simp only: f)
  with i f l show ?thesis by blast
qed

section \<open>Session tokens\<close>

text \<open>Every handler that checks its token first does nothing for a stale token.\<close>

lemma stale_handlers_noop:
  "currentSessionIdRef s \<noteq> newSessionId \<Longrightarrow>
   onmessage newSessionId msg now s = (s, False) \<and>
   onopen newSessionId s = s \<and>
   onclose newSessionId s = s \<and>
   onerror newSessionId s = s \<and>
   onaudioprocess newSessionId rate inputData s = None"
  by (simp add: onmessage_def onopen_def onclose_def onerror_def onaudioprocess_def)

text \<open>
  C1. The part of the message handler that runs after the audio decode checks no token.
  A handler of session \<open>sid\<close> that is suspended at the decode when the session is reset
  moves the cursor and adds a node once it resumes, although the current token is no
  longer \<open>sid\<close>; resuming after the next session has started, it moves that session's
  cursor.
\<close>

theorem stale_decode_mutates_after_reset:
  "onmessage sid audioMsg 2 activeSession = (activeSession, True) \<and>
   currentSessionIdRef (handleHardReset activeSession) \<noteq> sid \<and>
   nextStartTimeRef (handleHardReset activeSession) = 0 \<and>
   sourcesRef (handleHardReset activeSession) = [] \<and>
   nextStartTimeRef (onmessage_audio (Some 0.5) 3 (handleHardReset activeSession)) = 3.5 \<and>
   sourcesRef (onmessage_audio (Some 0.5) 3 (handleHardReset activeSession)) =
     [\<lparr>nodeId = 2, startAt = 3, bufDuration = 0.5\<rparr>] \<and>
   currentSessionIdRef (startInterview goodStart sid2 (handleHardReset activeSession)) = sid2 \<and>
   nextStartTimeRef (startInterview goodStart sid2 (handleHardReset activeSession)) = 0 \<and>
   nextStartTimeRef
     (onmessage_audio (Some 0.5) 3
        (startInterview goodStart sid2 (handleHardReset activeSession))) = 3.5"
  by (simp add: activeSession_eval onmessage_def audioMsg_def handleOutputText_def
      handleInputText_def handleHardReset_def stopAllMedia_def onmessage_audio_def Let_def
      startInterview_def goodStart_def truthy_str_def sid_neq sid_neq [symmetric])
     (simp add: str_def)

end
